theory Spec2Isabelle
  imports Complex_Main
begin

section \<open>JavaScript values\<close>

text \<open>
  A JavaScript number is an IEEE double. The component only compares numbers and takes
  minima and maxima, which never round, so a finite double is represented by the real
  number it denotes; the three non-finite values are kept apart. (The two zeros of a
  double denote the same real; they also compare equal in JavaScript.)
\<close>

datatype jsnum = NaN | NegInf | Fin real | PosInf

text \<open>The comparison \<^verbatim>\<open>a <= b\<close> on numbers: false as soon as one side is NaN.\<close>

fun jsnum_le :: "jsnum \<Rightarrow> jsnum \<Rightarrow> bool" where
  "jsnum_le NaN b = False"
| "jsnum_le a NaN = False"
| "jsnum_le NegInf b = True"
| "jsnum_le a PosInf = True"
| "jsnum_le (Fin x) (Fin y) = (x \<le> y)"
| "jsnum_le a NegInf = False"
| "jsnum_le PosInf b = False"

text \<open>\<^verbatim>\<open>Math.min\<close> and \<^verbatim>\<open>Math.max\<close> of two arguments: NaN if one argument is NaN.\<close>

definition Math_min :: "jsnum \<Rightarrow> jsnum \<Rightarrow> jsnum" where
  "Math_min a b = (if a = NaN \<or> b = NaN then NaN else if jsnum_le a b then a else b)"

definition Math_max :: "jsnum \<Rightarrow> jsnum \<Rightarrow> jsnum" where
  "Math_max a b = (if a = NaN \<or> b = NaN then NaN else if jsnum_le a b then b else a)"

fun isNaN :: "jsnum \<Rightarrow> bool" where
  "isNaN NaN = True"
| "isNaN n = False"

fun isFinite :: "jsnum \<Rightarrow> bool" where
  "isFinite (Fin x) = True"
| "isFinite n = False"

text \<open>
  The entries of a \<^verbatim>\<open>coordinates\<close> array as they come out of the bundled JSON file:
  numbers, strings, booleans or null. \<^verbatim>\<open>typeof v === 'number'\<close> holds exactly for
  \<open>JNum\<close>.
\<close>

datatype jsval = JNum jsnum | JStr string | JBool bool | JNull

fun typeof_number :: "jsval \<Rightarrow> bool" where
  "typeof_number (JNum n) = True"
| "typeof_number v = False"

text \<open>
  A thrown value. \<open>ErrorObj name message\<close> is an instance of \<^verbatim>\<open>Error\<close>;
  \<open>NonError s\<close> is any other thrown value, given by its string conversion.
\<close>

datatype js_exn = ErrorObj string string | NonError string

text \<open>\<^verbatim>\<open>new Error(msg)\<close>\<close>

definition Error :: "string \<Rightarrow> js_exn" where
  "Error msg = ErrorObj ''Error'' msg"

text \<open>The string conversion used by a template literal \<^verbatim>\<open>`${error}`\<close>.\<close>

fun to_string :: "js_exn \<Rightarrow> string" where
  "to_string (ErrorObj n m) = (if n = [] then m else if m = [] then n else n @ '': '' @ m)"
| "to_string (NonError s) = s"

fun instanceof_Error :: "js_exn \<Rightarrow> bool" where
  "instanceof_Error (ErrorObj n m) = True"
| "instanceof_Error (NonError s) = False"

fun message :: "js_exn \<Rightarrow> string" where
  "message (ErrorObj n m) = m"
| "message (NonError s) = []"

section \<open>Point records\<close>

text \<open>
  A record of the data file: \<^verbatim>\<open>{ id, name, coordinates }\<close>. The field
  \<^verbatim>\<open>coordinates\<close> is \<open>None\<close> when it is missing (absent, undefined or null) and
  otherwise an array of JSON values of any length.
\<close>

record point =
  point_id :: int
  point_name :: string
  coordinates :: "jsval list option"

datatype log_entry =
    Warn string point
  | ErrorLog string string

section \<open>The bounds computation (second version of the component)\<close>

text \<open>The four local variables of \<^verbatim>\<open>calculateBounds\<close>.\<close>

record bounds_vars =
  minLon :: jsnum
  minLat :: jsnum
  maxLon :: jsnum
  maxLat :: jsnum

definition bounds_init :: bounds_vars where
  "bounds_init = \<lparr>minLon = PosInf, minLat = PosInf, maxLon = NegInf, maxLat = NegInf\<rparr>"

text \<open>
  The callback of \<^verbatim>\<open>points.forEach\<close>: it updates the four locals and writes to the
  console, here the pair of the locals and the console lines so far. The two calls of the
  global \<^verbatim>\<open>isNaN\<close> are only reached when both entries are numbers.
\<close>

definition bounds_callback :: "point \<Rightarrow> bounds_vars \<times> log_entry list \<Rightarrow> bounds_vars \<times> log_entry list" where
  "bounds_callback p = (\<lambda>(v, out).
     case coordinates p of
       None \<Rightarrow> (v, out @ [Warn ''Invalid point coordinates:'' p])
     | Some cs \<Rightarrow>
         if length cs < 2 then (v, out @ [Warn ''Invalid point coordinates:'' p])
         else
           (case (cs ! 0, cs ! 1) of
              (JNum lon, JNum lat) \<Rightarrow>
                if isNaN lon \<or> isNaN lat then (v, out @ [Warn ''Invalid coordinate values:'' p])
                else
                  (\<lparr>minLon = Math_min (minLon v) lon,
                    minLat = Math_min (minLat v) lat,
                    maxLon = Math_max (maxLon v) lon,
                    maxLat = Math_max (maxLat v) lat\<rparr>, out)
            | _ \<Rightarrow> (v, out @ [Warn ''Invalid coordinate values:'' p])))"

text \<open>
  \<^verbatim>\<open>calculateBounds(points)\<close>: the thrown error or the box
  \<^verbatim>\<open>[[minLon, minLat], [maxLon, maxLat]]\<close>, with the console after the call.
\<close>

definition calculateBounds :: "point list \<Rightarrow> log_entry list \<Rightarrow> (js_exn + jsnum list list) \<times> log_entry list" where
  "calculateBounds points out =
     (if points = [] then (Inl (Error ''No points data available''), out)
      else
        (case fold bounds_callback points (bounds_init, out) of (v, out') \<Rightarrow>
           if \<not> isFinite (minLon v) \<or> \<not> isFinite (maxLon v) \<or>
              \<not> isFinite (minLat v) \<or> \<not> isFinite (maxLat v)
           then (Inl (Error ''Invalid bounds calculated from points''), out')
           else (Inr [[minLon v, minLat v], [maxLon v, maxLat v]], out')))"


section \<open>The mapping SDK as seen by the repository\<close>

text \<open>
  The SDK is a dependency. What the repository observes of it is which objects its
  constructors return, whether a constructor or a teardown throws, and which components
  sit on the UI surface of the view. One run of the mount effect constructs at most one
  object of each kind, and the component refers to the objects of its latest run only, so
  an object is identified by its kind.
\<close>

datatype wname =
    Home | Compass | Locate | Search | ScaleBar | Fullscreen | BasemapGallery
  | CoordinateConversion | Measurement | Sketch

datatype sdk_object = MapObj | LayerObj | ViewObj | WidgetObj wname

text \<open>
  A reference to an object, with what its property \<^verbatim>\<open>destroy\<close> holds: nothing
  (undefined or null), a function, or any other value. \<open>has_destroy\<close> is
  \<^verbatim>\<open>typeof h.destroy === 'function'\<close>.
\<close>

datatype destroy_prop = DestroyAbsent | DestroyFunction | DestroyOther

record handle =
  ident :: sdk_object
  destroy :: destroy_prop

definition has_destroy :: "handle \<Rightarrow> bool" where
  "has_destroy h = (destroy h = DestroyFunction)"

text \<open>
  The interface \<^verbatim>\<open>WidgetsState\<close>: ten optional slots. \<^verbatim>\<open>Object.values\<close> lists the
  slots in the order in which \<^verbatim>\<open>createAllWidgets\<close> fills them; an absent slot and a
  slot holding undefined are both \<open>None\<close>, and both are skipped by every reader.
\<close>

record WidgetsState =
  home :: "handle option"
  compass :: "handle option"
  locate :: "handle option"
  search :: "handle option"
  scaleBar :: "handle option"
  fullscreen :: "handle option"
  basemapGallery :: "handle option"
  coordinateConversion :: "handle option"
  measurement :: "handle option"
  sketch :: "handle option"

definition empty_widgets :: WidgetsState where
  "empty_widgets =
     \<lparr>home = None, compass = None, locate = None, search = None, scaleBar = None,
      fullscreen = None, basemapGallery = None, coordinateConversion = None,
      measurement = None, sketch = None\<rparr>"

definition Object_values :: "WidgetsState \<Rightarrow> handle option list" where
  "Object_values ws =
     [home ws, compass ws, locate ws, search ws, scaleBar ws, fullscreen ws,
      basemapGallery ws, coordinateConversion ws, measurement ws, sketch ws]"

text \<open>
  What the SDK does when called: a constructor or a teardown may throw, the readiness
  promise of the view and the animation may reject.
\<close>

record sdk =
  ctor_throws :: "sdk_object \<Rightarrow> js_exn option"
  destroy_throws :: "sdk_object \<Rightarrow> js_exn option"
  when_rejects :: "js_exn option"
  goTo_rejects :: "js_exn option"

text \<open>Where the asynchronous function \<^verbatim>\<open>setup\<close> of the mount effect is suspended.\<close>

datatype setup_pc =
    NotStarted
  | AwaitInit "js_exn + handle \<times> handle"
  | AwaitWhen handle "jsnum list list"
  | AwaitGoTo
  | Finished

text \<open>
  The state the code reads and writes: the effects on the SDK side (objects constructed,
  teardown calls in order, the UI surface of the view with each component's position, the
  graphics of the layer, the console) and the component's references and React state.
  \<open>mounted\<close> and \<open>pending\<close> belong to the latest run of the mount effect;
  \<open>stale\<close> holds the suspended \<^verbatim>\<open>setup\<close> of every earlier run, whose own
  \<^verbatim>\<open>mounted\<close> is false.
\<close>

record state =
  constructed :: "sdk_object list"
  teardowns :: "sdk_object list"
  ui :: "(sdk_object \<times> string) list"
  graphics :: "(jsnum \<times> jsnum \<times> point) list"
  console :: "log_entry list"
  mapDivRef :: "string option"
  viewRef :: "handle option"
  widgetsRef :: WidgetsState
  toolsOpenRef :: bool
  basemapOpenRef :: bool
  toolsOpen :: bool
  basemapOpen :: bool
  loading :: bool
  error :: "string option"
  mounted :: bool
  pending :: setup_pc
  stale :: "setup_pc list"

text \<open>
  A call either returns a value or throws, and leaves a state behind in both cases.
\<close>

type_synonym 'a js = "state \<Rightarrow> (js_exn + 'a) \<times> state"

definition return_js :: "'a \<Rightarrow> 'a js" where
  "return_js a = (\<lambda>s. (Inr a, s))"

definition throw_js :: "js_exn \<Rightarrow> 'a js" where
  "throw_js e = (\<lambda>s. (Inl e, s))"

definition bind_js :: "'a js \<Rightarrow> ('a \<Rightarrow> 'b js) \<Rightarrow> 'b js" where
  "bind_js m f = (\<lambda>s. case m s of (Inl e, s') \<Rightarrow> (Inl e, s') | (Inr a, s') \<Rightarrow> f a s')"

definition try_catch :: "'a js \<Rightarrow> (js_exn \<Rightarrow> 'a js) \<Rightarrow> 'a js" where
  "try_catch m h = (\<lambda>s. case m s of (Inl e, s') \<Rightarrow> h e s' | (Inr a, s') \<Rightarrow> (Inr a, s'))"

definition modify_js :: "(state \<Rightarrow> state) \<Rightarrow> unit js" where
  "modify_js f = (\<lambda>s. (Inr (), f s))"

definition read_js :: "(state \<Rightarrow> 'a) \<Rightarrow> 'a js" where
  "read_js f = (\<lambda>s. (Inr (f s), s))"

text \<open>\<^verbatim>\<open>xs.forEach(f)\<close>: an exception of the callback ends the iteration.\<close>

fun forEach :: "'a list \<Rightarrow> ('a \<Rightarrow> unit js) \<Rightarrow> unit js" where
  "forEach [] f = return_js ()"
| "forEach (x # xs) f = bind_js (f x) (\<lambda>_. forEach xs f)"

text \<open>
  \<^verbatim>\<open>new X({...})\<close> for the SDK class of the given kind. The fields \<open>ui\<close> and
  \<open>graphics\<close> are the surface of the view and the content of the layer constructed
  last: a new view starts with none of the repository's components on it, a new layer
  with no graphic.
\<close>

definition sdk_new :: "sdk \<Rightarrow> sdk_object \<Rightarrow> handle js" where
  "sdk_new k t = (\<lambda>s.
     case ctor_throws k t of
       Some e \<Rightarrow> (Inl e, s)
     | None \<Rightarrow>
         (Inr \<lparr>ident = t, destroy = DestroyFunction\<rparr>,
          if t = ViewObj then s\<lparr>constructed := constructed s @ [t], ui := []\<rparr>
          else if t = LayerObj then s\<lparr>constructed := constructed s @ [t], graphics := []\<rparr>
          else s\<lparr>constructed := constructed s @ [t]\<rparr>))"

text \<open>\<^verbatim>\<open>h.destroy()\<close>: the call is recorded, then it returns or throws.\<close>

definition invoke_destroy :: "sdk \<Rightarrow> handle \<Rightarrow> unit js" where
  "invoke_destroy k h = (\<lambda>s.
     case destroy_throws k (ident h) of
       Some e \<Rightarrow> (Inl e, s\<lparr>teardowns := teardowns s @ [ident h]\<rparr>)
     | None \<Rightarrow> (Inr (), s\<lparr>teardowns := teardowns s @ [ident h]\<rparr>))"

text \<open>
  \<^verbatim>\<open>view.ui.add(component, position)\<close> and \<^verbatim>\<open>view.ui.remove(component)\<close>: the
  surface holds a component at most once.
\<close>

definition ui_add :: "handle \<Rightarrow> string \<Rightarrow> state \<Rightarrow> state" where
  "ui_add h pos s = s\<lparr>ui := filter (\<lambda>c. fst c \<noteq> ident h) (ui s) @ [(ident h, pos)]\<rparr>"

definition ui_remove :: "handle \<Rightarrow> state \<Rightarrow> state" where
  "ui_remove h s = s\<lparr>ui := filter (\<lambda>c. fst c \<noteq> ident h) (ui s)\<rparr>"

definition console_error :: "string \<Rightarrow> js_exn \<Rightarrow> unit js" where
  "console_error msg e = modify_js (\<lambda>s. s\<lparr>console := console s @ [ErrorLog msg (to_string e)]\<rparr>)"

section \<open>The widget factory (\<^verbatim>\<open>MapWidgetsFactory.ts\<close>)\<close>

text \<open>
  Every creator is \<^verbatim>\<open>try { return new X(...) } catch (error) { throw new Error(`...: ${error}`) }\<close>.
  The fixed options handed to the constructors do not reach the model.
\<close>

definition createMap :: "sdk \<Rightarrow> string \<Rightarrow> handle js" where
  "createMap k basemap =
     try_catch (sdk_new k MapObj)
       (\<lambda>error. throw_js (Error (''Failed to create map: '' @ to_string error)))"

definition createMapView :: "sdk \<Rightarrow> string \<Rightarrow> handle \<Rightarrow> handle js" where
  "createMapView k container map_arg =
     try_catch (sdk_new k ViewObj)
       (\<lambda>error. throw_js (Error (''Failed to create map view: '' @ to_string error)))"

definition createGraphicsLayer :: "sdk \<Rightarrow> string \<Rightarrow> handle js" where
  "createGraphicsLayer k layer_id =
     try_catch (sdk_new k LayerObj)
       (\<lambda>error. throw_js (Error (''Failed to create graphics layer: '' @ to_string error)))"

definition createHomeWidget :: "sdk \<Rightarrow> handle \<Rightarrow> handle js" where
  "createHomeWidget k view =
     try_catch (sdk_new k (WidgetObj Home))
       (\<lambda>error. throw_js (Error (''Failed to create home widget: '' @ to_string error)))"

definition createCompassWidget :: "sdk \<Rightarrow> handle \<Rightarrow> handle js" where
  "createCompassWidget k view =
     try_catch (sdk_new k (WidgetObj Compass))
       (\<lambda>error. throw_js (Error (''Failed to create compass widget: '' @ to_string error)))"

definition createLocateWidget :: "sdk \<Rightarrow> handle \<Rightarrow> handle js" where
  "createLocateWidget k view =
     try_catch (sdk_new k (WidgetObj Locate))
       (\<lambda>error. throw_js (Error (''Failed to create locate widget: '' @ to_string error)))"

definition createSearchWidget :: "sdk \<Rightarrow> handle \<Rightarrow> handle js" where
  "createSearchWidget k view =
     try_catch (sdk_new k (WidgetObj Search))
       (\<lambda>error. throw_js (Error (''Failed to create search widget: '' @ to_string error)))"

definition createScaleBarWidget :: "sdk \<Rightarrow> handle \<Rightarrow> handle js" where
  "createScaleBarWidget k view =
     try_catch (sdk_new k (WidgetObj ScaleBar))
       (\<lambda>error. throw_js (Error (''Failed to create scale bar widget: '' @ to_string error)))"

definition createFullscreenWidget :: "sdk \<Rightarrow> handle \<Rightarrow> handle js" where
  "createFullscreenWidget k view =
     try_catch (sdk_new k (WidgetObj Fullscreen))
       (\<lambda>error. throw_js (Error (''Failed to create fullscreen widget: '' @ to_string error)))"

definition createBasemapGallery :: "sdk \<Rightarrow> handle \<Rightarrow> handle js" where
  "createBasemapGallery k view =
     try_catch (sdk_new k (WidgetObj BasemapGallery))
       (\<lambda>error. throw_js (Error (''Failed to create basemap gallery: '' @ to_string error)))"

definition createCoordinateConversionWidget :: "sdk \<Rightarrow> handle \<Rightarrow> handle js" where
  "createCoordinateConversionWidget k view =
     try_catch (sdk_new k (WidgetObj CoordinateConversion))
       (\<lambda>error. throw_js
          (Error (''Failed to create coordinate conversion widget: '' @ to_string error)))"

definition createMeasurementWidget :: "sdk \<Rightarrow> handle \<Rightarrow> handle js" where
  "createMeasurementWidget k view =
     try_catch (sdk_new k (WidgetObj Measurement))
       (\<lambda>error. throw_js (Error (''Failed to create measurement widget: '' @ to_string error)))"

definition createSketchWidget :: "sdk \<Rightarrow> handle \<Rightarrow> handle \<Rightarrow> handle js" where
  "createSketchWidget k view layer =
     try_catch (sdk_new k (WidgetObj Sketch))
       (\<lambda>error. throw_js (Error (''Failed to create sketch widget: '' @ to_string error)))"

text \<open>
  \<^verbatim>\<open>createAllWidgets(view, graphicsLayer?)\<close>: the object literal evaluates its nine
  properties in order, then the sketch slot is assigned when a layer was passed.
\<close>

definition createAllWidgets :: "sdk \<Rightarrow> handle \<Rightarrow> handle option \<Rightarrow> WidgetsState js" where
  "createAllWidgets k view graphicsLayer =
     try_catch
       (bind_js (createHomeWidget k view) (\<lambda>w1.
        bind_js (createCompassWidget k view) (\<lambda>w2.
        bind_js (createLocateWidget k view) (\<lambda>w3.
        bind_js (createSearchWidget k view) (\<lambda>w4.
        bind_js (createScaleBarWidget k view) (\<lambda>w5.
        bind_js (createFullscreenWidget k view) (\<lambda>w6.
        bind_js (createBasemapGallery k view) (\<lambda>w7.
        bind_js (createCoordinateConversionWidget k view) (\<lambda>w8.
        bind_js (createMeasurementWidget k view) (\<lambda>w9.
          let widgets =
            \<lparr>home = Some w1, compass = Some w2, locate = Some w3, search = Some w4,
             scaleBar = Some w5, fullscreen = Some w6, basemapGallery = Some w7,
             coordinateConversion = Some w8, measurement = Some w9, sketch = None\<rparr>
          in (case graphicsLayer of
                Some layer \<Rightarrow>
                  bind_js (createSketchWidget k view layer) (\<lambda>w10.
                    return_js (widgets\<lparr>sketch := Some w10\<rparr>))
              | None \<Rightarrow> return_js widgets)))))))))))
       (\<lambda>error. throw_js (Error (''Failed to create widgets: '' @ to_string error)))"

text \<open>
  \<^verbatim>\<open>destroyWidgets(widgets)\<close>: the callback tests the slot and the type of
  \<^verbatim>\<open>destroy\<close> inside its own try block and logs what it catches.
\<close>

definition destroyWidgets :: "sdk \<Rightarrow> WidgetsState \<Rightarrow> unit js" where
  "destroyWidgets k widgets =
     forEach (Object_values widgets) (\<lambda>widget.
       try_catch
         (case widget of
            Some w \<Rightarrow> if has_destroy w then invoke_destroy k w else return_js ()
          | None \<Rightarrow> return_js ())
         (\<lambda>error. console_error ''Failed to destroy widget:'' error))"

definition destroyView :: "sdk \<Rightarrow> handle option \<Rightarrow> unit js" where
  "destroyView k view =
     (case view of
        Some v \<Rightarrow>
          if has_destroy v
          then try_catch (invoke_destroy k v)
                 (\<lambda>error. console_error ''Failed to destroy view:'' error)
          else return_js ()
      | None \<Rightarrow> return_js ())"

section \<open>The map component (second version)\<close>

text \<open>
  The points of the bundled data file \<^verbatim>\<open>data.json\<close> are a parameter \<open>pointsData\<close>
  of every function that reads them. Setting a React state variable is an assignment to
  the field of that name. The two optional listeners are handed to the SDK and never
  called by the component; they are left out.
\<close>

text \<open>
  The callback of \<^verbatim>\<open>pointsData.forEach\<close> in \<^verbatim>\<open>addPointsToLayer\<close>: a graphic for
  every point that passes the two checks.
\<close>

definition addPoints_callback :: "point \<Rightarrow> state \<Rightarrow> state" where
  "addPoints_callback p s =
     (case coordinates p of
        None \<Rightarrow> s\<lparr>console := console s @ [Warn ''Skipping invalid point:'' p]\<rparr>
      | Some cs \<Rightarrow>
          if length cs < 2 then s\<lparr>console := console s @ [Warn ''Skipping invalid point:'' p]\<rparr>
          else
            (case (cs ! 0, cs ! 1) of
               (JNum lon, JNum lat) \<Rightarrow>
                 if isNaN lon \<or> isNaN lat
                 then s\<lparr>console := console s @ [Warn ''Skipping point with invalid coordinates:'' p]\<rparr>
                 else s\<lparr>graphics := graphics s @ [(lon, lat, p)]\<rparr>
             | _ \<Rightarrow> s\<lparr>console := console s @ [Warn ''Skipping point with invalid coordinates:'' p]\<rparr>))"

definition addPointsToLayer :: "point list \<Rightarrow> handle \<Rightarrow> jsnum list list js" where
  "addPointsToLayer pointsData graphicsLayer = (\<lambda>s.
     let s1 = fold addPoints_callback pointsData s
     in case calculateBounds pointsData (console s1) of
          (r, out) \<Rightarrow> (r, s1\<lparr>console := out\<rparr>))"

text \<open>
  \<^verbatim>\<open>initializeMap\<close>. The test of the container is outside the try block; everything
  else is inside, and what the block throws is wrapped once more. The slots read with
  \<^verbatim>\<open>!\<close> have just been filled by \<^verbatim>\<open>createAllWidgets\<close>. The call
  \<^verbatim>\<open>map.add(graphicsLayer)\<close> leaves no trace in this state.
\<close>

definition initializeMap :: "sdk \<Rightarrow> (handle \<times> handle) js" where
  "initializeMap k =
     bind_js (read_js mapDivRef) (\<lambda>current.
       case current of
         None \<Rightarrow> throw_js (Error ''Map container not found'')
       | Some container \<Rightarrow>
           try_catch
             (bind_js (createMap k ''streets-vector'') (\<lambda>map_obj.
              bind_js (createGraphicsLayer k ''draw-layer'') (\<lambda>graphicsLayer.
              bind_js (createMapView k container map_obj) (\<lambda>mapView.
              bind_js (createAllWidgets k mapView (Some graphicsLayer)) (\<lambda>createdWidgets.
              bind_js (modify_js (\<lambda>s. s\<lparr>viewRef := Some mapView\<rparr>)) (\<lambda>_.
              bind_js (modify_js (\<lambda>s. s\<lparr>widgetsRef := createdWidgets\<rparr>)) (\<lambda>_.
              bind_js (modify_js (ui_add (the (home createdWidgets)) ''top-left'')) (\<lambda>_.
              bind_js (modify_js (ui_add (the (compass createdWidgets)) ''top-left'')) (\<lambda>_.
              bind_js (modify_js (ui_add (the (locate createdWidgets)) ''top-left'')) (\<lambda>_.
              bind_js (modify_js (ui_add (the (search createdWidgets)) ''top-right'')) (\<lambda>_.
              bind_js (modify_js (ui_add (the (fullscreen createdWidgets)) ''top-right'')) (\<lambda>_.
              bind_js (modify_js (ui_add (the (scaleBar createdWidgets)) ''bottom-right'')) (\<lambda>_.
              bind_js (modify_js (ui_add (the (coordinateConversion createdWidgets)) ''bottom-left'')) (\<lambda>_.
                return_js (mapView, graphicsLayer)))))))))))))))
             (\<lambda>err. throw_js (Error (''Map initialization failed: '' @ to_string err))))"

text \<open>
  The catch block of \<^verbatim>\<open>setup\<close>, and \<^verbatim>\<open>setup\<close> itself, cut at its three
  \<^verbatim>\<open>await\<close>s: \<open>setup_start\<close> runs up to the first one (the body of
  \<^verbatim>\<open>initializeMap\<close> has no \<^verbatim>\<open>await\<close> and runs at once), \<open>resume\<close> runs from one
  \<^verbatim>\<open>await\<close> to the next.
\<close>

definition setup_catch :: "js_exn \<Rightarrow> state \<Rightarrow> state" where
  "setup_catch err s =
     (if mounted s
      then s\<lparr>error := Some (if instanceof_Error err then message err
                               else ''Unknown error occurred''),
             loading := False, pending := Finished\<rparr>
      else s\<lparr>pending := Finished\<rparr>)"

definition setup_start :: "sdk \<Rightarrow> state \<Rightarrow> state" where
  "setup_start k s =
     (case initializeMap k (s\<lparr>loading := True, error := None\<rparr>) of
        (r, s') \<Rightarrow> s'\<lparr>pending := AwaitInit r\<rparr>)"

definition resume :: "sdk \<Rightarrow> point list \<Rightarrow> state \<Rightarrow> state" where
  "resume k pointsData s =
     (case pending s of
        NotStarted \<Rightarrow> s
      | AwaitInit (Inl err) \<Rightarrow> setup_catch err s
      | AwaitInit (Inr (mapView, graphicsLayer)) \<Rightarrow>
          if \<not> mounted s then s\<lparr>pending := Finished\<rparr>
          else
            (case addPointsToLayer pointsData graphicsLayer s of
               (Inl err, s') \<Rightarrow> setup_catch err s'
             | (Inr bounds, s') \<Rightarrow> s'\<lparr>pending := AwaitWhen mapView bounds\<rparr>)
      | AwaitWhen mapView bounds \<Rightarrow>
          (case when_rejects k of
             Some err \<Rightarrow> setup_catch err s
           | None \<Rightarrow> if mounted s then s\<lparr>pending := AwaitGoTo\<rparr> else s\<lparr>pending := Finished\<rparr>)
      | AwaitGoTo \<Rightarrow>
          (case goTo_rejects k of
             Some err \<Rightarrow> setup_catch err s
           | None \<Rightarrow> s\<lparr>loading := False, pending := Finished\<rparr>)
      | Finished \<Rightarrow> s)"

text \<open>
  The function returned by the mount effect. The reference \<^verbatim>\<open>widgetsRef.current\<close>
  always holds an object, so its test always succeeds.
\<close>

definition cleanup :: "sdk \<Rightarrow> unit js" where
  "cleanup k =
     bind_js (modify_js (\<lambda>s. s\<lparr>mounted := False\<rparr>)) (\<lambda>_.
     bind_js (read_js widgetsRef) (\<lambda>widgets.
     bind_js (destroyWidgets k widgets) (\<lambda>_.
     bind_js (modify_js (\<lambda>s. s\<lparr>widgetsRef := empty_widgets\<rparr>)) (\<lambda>_.
     bind_js (read_js viewRef) (\<lambda>current.
       case current of
         Some view \<Rightarrow>
           bind_js (destroyView k (Some view)) (\<lambda>_.
             modify_js (\<lambda>s. s\<lparr>viewRef := None\<rparr>))
       | None \<Rightarrow> return_js ())))))"

text \<open>The two toggle effects and the two click handlers, each followed by its effect.\<close>

definition basemap_effect :: "state \<Rightarrow> state" where
  "basemap_effect s =
     (case (viewRef s, basemapGallery (widgetsRef s)) of
        (Some view, Some gallery) \<Rightarrow>
          (let s' = (if basemapOpen s then ui_add gallery ''bottom-right'' s
                     else ui_remove gallery s)
           in s'\<lparr>basemapOpenRef := basemapOpen s\<rparr>)
      | _ \<Rightarrow> s)"

definition tools_effect :: "state \<Rightarrow> state" where
  "tools_effect s =
     (case (viewRef s, measurement (widgetsRef s), sketch (widgetsRef s)) of
        (Some view, Some m, Some sk) \<Rightarrow>
          (let s' = (if toolsOpen s
                     then ui_add sk ''bottom-right'' (ui_add m ''bottom-right'' s)
                     else ui_remove sk (ui_remove m s))
           in s'\<lparr>toolsOpenRef := toolsOpen s\<rparr>)
      | _ \<Rightarrow> s)"

definition handleToolsToggle :: "state \<Rightarrow> state" where
  "handleToolsToggle s = tools_effect (s\<lparr>toolsOpen := \<not> toolsOpen s\<rparr>)"

definition handleBasemapToggle :: "state \<Rightarrow> state" where
  "handleBasemapToggle s = basemap_effect (s\<lparr>basemapOpen := \<not> basemapOpen s\<rparr>)"

text \<open>
  Mounting runs the three effects in the order of their declaration. The component
  before its first effect: loading, no error, both toggles closed, empty references.
\<close>

definition mount :: "sdk \<Rightarrow> state \<Rightarrow> state" where
  "mount k s = tools_effect (basemap_effect (setup_start k (s\<lparr>mounted := True\<rparr>)))"

text \<open>
  The dependencies of the mount effect include the two callback props, so a change of
  either runs the cleanup of the previous run and then the effect again; the toggle
  effects depend on their own boolean only and do not run. The \<^verbatim>\<open>setup\<close> of the
  previous run stays suspended where it was.
\<close>

definition rerun :: "sdk \<Rightarrow> state \<Rightarrow> state" where
  "rerun k s =
     (let s' = snd (cleanup k s)
      in setup_start k (s'\<lparr>mounted := True, stale := stale s' @ [pending s']\<rparr>))"

text \<open>
  The oldest suspended \<^verbatim>\<open>setup\<close> of an earlier run goes on. Its \<^verbatim>\<open>mounted\<close> is
  false: it returns after the initialization, skips the animation, and its catch block
  does nothing; only after its animation does it clear \<^verbatim>\<open>loading\<close>, which is
  not guarded.
\<close>

definition resume_stale :: "sdk \<Rightarrow> state \<Rightarrow> state" where
  "resume_stale k s =
     (case stale s of
        [] \<Rightarrow> s
      | pc # rest \<Rightarrow>
          (case pc of
             AwaitGoTo \<Rightarrow>
               (case goTo_rejects k of
                  Some err \<Rightarrow> s\<lparr>stale := rest\<rparr>
                | None \<Rightarrow> s\<lparr>loading := False, stale := rest\<rparr>)
           | _ \<Rightarrow> s\<lparr>stale := rest\<rparr>))"

definition initial_state :: "string option \<Rightarrow> state" where
  "initial_state container =
     \<lparr>constructed = [], teardowns = [], ui = [], graphics = [], console = [],
      mapDivRef = container, viewRef = None, widgetsRef = empty_widgets,
      toolsOpenRef = False, basemapOpenRef = False, toolsOpen = False, basemapOpen = False,
      loading = True, error = None, mounted = False, pending = NotStarted, stale = []\<rparr>"

text \<open>
  What is rendered: the error panel when \<^verbatim>\<open>error\<close> is a non-empty string, else the
  map, under the loading overlay while \<^verbatim>\<open>loading\<close> is set.
\<close>

datatype lifecycle = Initializing | Ready | Failed

definition lifecycle_of :: "state \<Rightarrow> lifecycle" where
  "lifecycle_of s =
     (case error s of
        Some msg \<Rightarrow> if msg \<noteq> [] then Failed else if loading s then Initializing else Ready
      | None \<Rightarrow> if loading s then Initializing else Ready)"

section \<open>The first version of the factory and of the component\<close>

text \<open>
  The earlier factory constructs without a try block, places the default widgets itself
  and destroys without a try block. The earlier component keeps the view and the widget
  set in React state; they are held in the fields \<open>viewRef\<close> and \<open>widgetsRef\<close>.
\<close>

definition createHomeWidget_v1 :: "sdk \<Rightarrow> handle \<Rightarrow> handle js" where
  "createHomeWidget_v1 k view = sdk_new k (WidgetObj Home)"

definition createCompassWidget_v1 :: "sdk \<Rightarrow> handle \<Rightarrow> handle js" where
  "createCompassWidget_v1 k view = sdk_new k (WidgetObj Compass)"

definition createLocateWidget_v1 :: "sdk \<Rightarrow> handle \<Rightarrow> handle js" where
  "createLocateWidget_v1 k view = sdk_new k (WidgetObj Locate)"

definition createSearchWidget_v1 :: "sdk \<Rightarrow> handle \<Rightarrow> handle js" where
  "createSearchWidget_v1 k view = sdk_new k (WidgetObj Search)"

definition createScaleBarWidget_v1 :: "sdk \<Rightarrow> handle \<Rightarrow> handle js" where
  "createScaleBarWidget_v1 k view = sdk_new k (WidgetObj ScaleBar)"

definition createFullscreenWidget_v1 :: "sdk \<Rightarrow> handle \<Rightarrow> handle js" where
  "createFullscreenWidget_v1 k view = sdk_new k (WidgetObj Fullscreen)"

definition createBasemapGallery_v1 :: "sdk \<Rightarrow> handle \<Rightarrow> handle js" where
  "createBasemapGallery_v1 k view = sdk_new k (WidgetObj BasemapGallery)"

definition createCoordinateConversionWidget_v1 :: "sdk \<Rightarrow> handle \<Rightarrow> handle js" where
  "createCoordinateConversionWidget_v1 k view = sdk_new k (WidgetObj CoordinateConversion)"

definition createMeasurementWidget_v1 :: "sdk \<Rightarrow> handle \<Rightarrow> handle js" where
  "createMeasurementWidget_v1 k view = sdk_new k (WidgetObj Measurement)"

definition createSketchWidget_v1 :: "sdk \<Rightarrow> handle \<Rightarrow> handle \<Rightarrow> handle js" where
  "createSketchWidget_v1 k view layer = sdk_new k (WidgetObj Sketch)"

definition setupAllWidgets :: "sdk \<Rightarrow> handle \<Rightarrow> handle option \<Rightarrow> WidgetsState js" where
  "setupAllWidgets k view graphicsLayer =
     bind_js (createHomeWidget_v1 k view) (\<lambda>w1.
     bind_js (createCompassWidget_v1 k view) (\<lambda>w2.
     bind_js (createLocateWidget_v1 k view) (\<lambda>w3.
     bind_js (createSearchWidget_v1 k view) (\<lambda>w4.
     bind_js (createScaleBarWidget_v1 k view) (\<lambda>w5.
     bind_js (createFullscreenWidget_v1 k view) (\<lambda>w6.
     bind_js (createBasemapGallery_v1 k view) (\<lambda>w7.
     bind_js (createCoordinateConversionWidget_v1 k view) (\<lambda>w8.
     bind_js (createMeasurementWidget_v1 k view) (\<lambda>w9.
     bind_js (case graphicsLayer of
                Some layer \<Rightarrow> bind_js (createSketchWidget_v1 k view layer) (\<lambda>w. return_js (Some w))
              | None \<Rightarrow> return_js None) (\<lambda>w10.
     bind_js (modify_js (ui_add w1 ''top-left'')) (\<lambda>_.
     bind_js (modify_js (ui_add w2 ''top-left'')) (\<lambda>_.
     bind_js (modify_js (ui_add w3 ''top-left'')) (\<lambda>_.
     bind_js (modify_js (ui_add w4 ''top-right'')) (\<lambda>_.
     bind_js (modify_js (ui_add w6 ''top-right'')) (\<lambda>_.
     bind_js (modify_js (ui_add w5 ''bottom-right'')) (\<lambda>_.
     bind_js (modify_js (ui_add w8 ''bottom-left'')) (\<lambda>_.
       return_js
         \<lparr>home = Some w1, compass = Some w2, locate = Some w3, search = Some w4,
          scaleBar = Some w5, fullscreen = Some w6, basemapGallery = Some w7,
          coordinateConversion = Some w8, measurement = Some w9,
          sketch = w10\<rparr>)))))))))))))))))"

text \<open>
  \<^verbatim>\<open>widgets.forEach((w) => w?.destroy?.())\<close>: nothing happens for an absent entry or
  an absent \<^verbatim>\<open>destroy\<close>; any other \<^verbatim>\<open>destroy\<close> is called, which is a TypeError
  when it is not a function.
\<close>

definition destroyWidgets_v1 :: "sdk \<Rightarrow> handle option list \<Rightarrow> unit js" where
  "destroyWidgets_v1 k widgets =
     forEach widgets (\<lambda>w.
       case w of
         Some h \<Rightarrow>
           (case destroy h of
              DestroyAbsent \<Rightarrow> return_js ()
            | DestroyFunction \<Rightarrow> invoke_destroy k h
            | DestroyOther \<Rightarrow> throw_js (ErrorObj ''TypeError'' ''w?.destroy is not a function''))
       | None \<Rightarrow> return_js ())"

text \<open>
  The cleanup of the first version. Its effect runs once, so the \<^verbatim>\<open>widgets\<close> it
  closes over is the state of the first render, the empty object.
\<close>

definition cleanup_v1 :: "sdk \<Rightarrow> handle \<Rightarrow> unit js" where
  "cleanup_v1 k mapView =
     bind_js (destroyWidgets_v1 k (Object_values empty_widgets)) (\<lambda>_.
       invoke_destroy k mapView)"

definition basemap_effect_v1 :: "state \<Rightarrow> state" where
  "basemap_effect_v1 s =
     (case (viewRef s, basemapGallery (widgetsRef s)) of
        (Some view, Some gallery) \<Rightarrow>
          (if basemapOpen s then ui_add gallery ''bottom-right'' s else ui_remove gallery s)
      | _ \<Rightarrow> s)"

definition tools_effect_v1 :: "state \<Rightarrow> state" where
  "tools_effect_v1 s =
     (case (viewRef s, measurement (widgetsRef s), sketch (widgetsRef s)) of
        (Some view, Some m, Some sk) \<Rightarrow>
          (if toolsOpen s
           then ui_add sk ''bottom-right'' (ui_add m ''bottom-right'' s)
           else ui_remove sk (ui_remove m s))
      | _ \<Rightarrow> s)"

definition handleToolsToggle_v1 :: "state \<Rightarrow> state" where
  "handleToolsToggle_v1 s = tools_effect_v1 (s\<lparr>toolsOpen := \<not> toolsOpen s\<rparr>)"

definition handleBasemapToggle_v1 :: "state \<Rightarrow> state" where
  "handleBasemapToggle_v1 s = basemap_effect_v1 (s\<lparr>basemapOpen := \<not> basemapOpen s\<rparr>)"

text \<open>
  The states of the component during the first run of its mount effect, that is before
  the effect runs again and before the unmount: mounting, then any number of
  continuations of \<^verbatim>\<open>setup\<close> and of clicks on the two buttons.
\<close>

inductive first_run :: "sdk \<Rightarrow> point list \<Rightarrow> state \<Rightarrow> bool" for k :: sdk and pointsData :: "point list" where
  first_run_mount: "first_run k pointsData (mount k (initial_state container))"
| first_run_resume: "first_run k pointsData s \<Longrightarrow> first_run k pointsData (resume k pointsData s)"
| first_run_tools: "first_run k pointsData s \<Longrightarrow> first_run k pointsData (handleToolsToggle s)"
| first_run_basemap: "first_run k pointsData s \<Longrightarrow> first_run k pointsData (handleBasemapToggle s)"

text \<open>
  The states of the component up to its unmount: those of the first run, and what
  follows a change of a callback prop, which runs the mount effect again, and a
  continuation of a \<^verbatim>\<open>setup\<close> left behind by an earlier run.
\<close>

inductive reachable :: "sdk \<Rightarrow> point list \<Rightarrow> state \<Rightarrow> bool" for k :: sdk and pointsData :: "point list" where
  reachable_mount: "reachable k pointsData (mount k (initial_state container))"
| reachable_resume: "reachable k pointsData s \<Longrightarrow> reachable k pointsData (resume k pointsData s)"
| reachable_tools: "reachable k pointsData s \<Longrightarrow> reachable k pointsData (handleToolsToggle s)"
| reachable_basemap: "reachable k pointsData s \<Longrightarrow> reachable k pointsData (handleBasemapToggle s)"
| reachable_rerun: "reachable k pointsData s \<Longrightarrow> reachable k pointsData (rerun k s)"
| reachable_resume_stale: "reachable k pointsData s \<Longrightarrow> reachable k pointsData (resume_stale k s)"

section \<open>Notions used in the statements\<close>

text \<open>
  The coordinate pair of a point that passes the two checks of the bounds computation:
  a \<^verbatim>\<open>coordinates\<close> array whose first two entries are numbers other than NaN.
\<close>

definition lon_lat :: "point \<Rightarrow> (jsnum \<times> jsnum) option" where
  "lon_lat p =
     (case coordinates p of
        Some (JNum x # JNum y # rest) \<Rightarrow> if isNaN x \<or> isNaN y then None else Some (x, y)
      | _ \<Rightarrow> None)"

text \<open>The same pair when, in addition, both numbers are finite.\<close>

definition finite_lon_lat :: "point \<Rightarrow> (real \<times> real) option" where
  "finite_lon_lat p = (case lon_lat p of Some (Fin x, Fin y) \<Rightarrow> Some (x, y) | _ \<Rightarrow> None)"

text \<open>An entry that is not a number, or is NaN.\<close>

definition invalid_entry :: "jsval \<Rightarrow> bool" where
  "invalid_entry c = (\<not> typeof_number c \<or> c = JNum NaN)"

text \<open>
  Two readings of "the coordinates field is missing, has fewer than two entries, contains a
  non-number, or contains NaN": \<open>spec_excluded\<close> looks at every entry of the array, as
  the sentence says; \<open>excluded\<close> looks at the first two entries only.
\<close>

definition spec_excluded :: "point \<Rightarrow> bool" where
  "spec_excluded p =
     (case coordinates p of
        None \<Rightarrow> True
      | Some cs \<Rightarrow> length cs < 2 \<or> list_ex invalid_entry cs)"

definition excluded :: "point \<Rightarrow> bool" where
  "excluded p =
     (case coordinates p of
        None \<Rightarrow> True
      | Some cs \<Rightarrow> length cs < 2 \<or> list_ex invalid_entry (take 2 cs))"

text \<open>Taking one coordinate pair into the four running bounds.\<close>

definition extend :: "jsnum \<times> jsnum \<Rightarrow> bounds_vars \<Rightarrow> bounds_vars" where
  "extend c v = \<lparr>minLon = Math_min (minLon v) (fst c), minLat = Math_min (minLat v) (snd c),
                 maxLon = Math_max (maxLon v) (fst c), maxLat = Math_max (maxLat v) (snd c)\<rparr>"

text \<open>The console line written for a skipped point.\<close>

definition skip_warning :: "point \<Rightarrow> log_entry" where
  "skip_warning p =
     (case coordinates p of
        None \<Rightarrow> Warn ''Invalid point coordinates:'' p
      | Some cs \<Rightarrow> if length cs < 2 then Warn ''Invalid point coordinates:'' p
                   else Warn ''Invalid coordinate values:'' p)"

text \<open>The points of the two example scenarios, and two further points.\<close>

definition point_A :: point where
  "point_A = \<lparr>point_id = 1, point_name = ''A'', coordinates = Some [JNum (Fin 30), JNum (Fin 30)]\<rparr>"

definition point_B :: point where
  "point_B = \<lparr>point_id = 2, point_name = ''B'', coordinates = Some [JNum (Fin 32), JNum (Fin 28)]\<rparr>"

definition point_B_bad :: point where
  "point_B_bad = \<lparr>point_id = 2, point_name = ''B'', coordinates = Some [JStr ''x'', JNum (Fin 28)]\<rparr>"

definition point_Inf :: point where
  "point_Inf = \<lparr>point_id = 1, point_name = ''A'', coordinates = Some [JNum PosInf, JNum (Fin 30)]\<rparr>"

definition point_3 :: point where
  "point_3 = \<lparr>point_id = 3, point_name = ''C'',
              coordinates = Some [JNum (Fin 30), JNum (Fin 30), JStr ''x'']\<rparr>"

text \<open>The object a constructor of the SDK returns.\<close>

definition new_handle :: "sdk_object \<Rightarrow> handle" where
  "new_handle t = \<lparr>ident = t, destroy = DestroyFunction\<rparr>"

text \<open>The prefix each creator of the factory puts before the error it caught.\<close>

fun failure_label :: "sdk_object \<Rightarrow> string" where
  "failure_label MapObj = ''Failed to create map: ''"
| "failure_label ViewObj = ''Failed to create map view: ''"
| "failure_label LayerObj = ''Failed to create graphics layer: ''"
| "failure_label (WidgetObj Home) = ''Failed to create home widget: ''"
| "failure_label (WidgetObj Compass) = ''Failed to create compass widget: ''"
| "failure_label (WidgetObj Locate) = ''Failed to create locate widget: ''"
| "failure_label (WidgetObj Search) = ''Failed to create search widget: ''"
| "failure_label (WidgetObj ScaleBar) = ''Failed to create scale bar widget: ''"
| "failure_label (WidgetObj Fullscreen) = ''Failed to create fullscreen widget: ''"
| "failure_label (WidgetObj BasemapGallery) = ''Failed to create basemap gallery: ''"
| "failure_label (WidgetObj CoordinateConversion) = ''Failed to create coordinate conversion widget: ''"
| "failure_label (WidgetObj Measurement) = ''Failed to create measurement widget: ''"
| "failure_label (WidgetObj Sketch) = ''Failed to create sketch widget: ''"

text \<open>
  The first constructor of a sequence that throws, with what it throws, and the objects
  constructed before it.
\<close>

fun first_failure :: "sdk \<Rightarrow> sdk_object list \<Rightarrow> (sdk_object \<times> js_exn) option" where
  "first_failure k [] = None"
| "first_failure k (t # ts) =
     (case ctor_throws k t of Some e \<Rightarrow> Some (t, e) | None \<Rightarrow> first_failure k ts)"

fun built :: "sdk \<Rightarrow> sdk_object list \<Rightarrow> sdk_object list" where
  "built k [] = []"
| "built k (t # ts) = (case ctor_throws k t of Some e \<Rightarrow> [] | None \<Rightarrow> t # built k ts)"

text \<open>The order in which bulk create and the initialization construct.\<close>

definition widget_order :: "bool \<Rightarrow> sdk_object list" where
  "widget_order with_layer =
     map WidgetObj
       ([Home, Compass, Locate, Search, ScaleBar, Fullscreen, BasemapGallery,
         CoordinateConversion, Measurement] @ (if with_layer then [Sketch] else []))"

definition init_order :: "sdk_object list" where
  "init_order = [MapObj, LayerObj, ViewObj] @ widget_order True"

text \<open>The widget set with every slot filled by the object of its kind.\<close>

definition full_widgets :: "bool \<Rightarrow> WidgetsState" where
  "full_widgets with_layer =
     \<lparr>home = Some (new_handle (WidgetObj Home)),
      compass = Some (new_handle (WidgetObj Compass)),
      locate = Some (new_handle (WidgetObj Locate)),
      search = Some (new_handle (WidgetObj Search)),
      scaleBar = Some (new_handle (WidgetObj ScaleBar)),
      fullscreen = Some (new_handle (WidgetObj Fullscreen)),
      basemapGallery = Some (new_handle (WidgetObj BasemapGallery)),
      coordinateConversion = Some (new_handle (WidgetObj CoordinateConversion)),
      measurement = Some (new_handle (WidgetObj Measurement)),
      sketch = (if with_layer then Some (new_handle (WidgetObj Sketch)) else None)\<rparr>"

text \<open>The error a failed construction becomes on its way out of bulk create.\<close>

definition factory_error :: "sdk_object \<Rightarrow> js_exn \<Rightarrow> js_exn" where
  "factory_error t e =
     (case t of
        WidgetObj w \<Rightarrow>
          Error (''Failed to create widgets: Error: '' @ failure_label t @ to_string e)
      | _ \<Rightarrow> Error (failure_label t @ to_string e))"

text \<open>A creator of the factory, written once for every kind.\<close>

definition guarded_new :: "sdk \<Rightarrow> sdk_object \<Rightarrow> handle js" where
  "guarded_new k t = (\<lambda>s.
     case ctor_throws k t of
       Some e \<Rightarrow> (Inl (Error (failure_label t @ to_string e)), s)
     | None \<Rightarrow>
         (Inr (new_handle t),
          if t = ViewObj then s\<lparr>constructed := constructed s @ [t], ui := []\<rparr>
          else if t = LayerObj then s\<lparr>constructed := constructed s @ [t], graphics := []\<rparr>
          else s\<lparr>constructed := constructed s @ [t]\<rparr>))"

text \<open>The components on the UI surface, and the surface after the seven default placements.\<close>

definition ui_widgets :: "state \<Rightarrow> sdk_object set" where
  "ui_widgets s = fst ` set (ui s)"

definition place_defaults :: "state \<Rightarrow> state" where
  "place_defaults s =
     ui_add (new_handle (WidgetObj CoordinateConversion)) ''bottom-left''
    (ui_add (new_handle (WidgetObj ScaleBar)) ''bottom-right''
    (ui_add (new_handle (WidgetObj Fullscreen)) ''top-right''
    (ui_add (new_handle (WidgetObj Search)) ''top-right''
    (ui_add (new_handle (WidgetObj Locate)) ''top-left''
    (ui_add (new_handle (WidgetObj Compass)) ''top-left''
    (ui_add (new_handle (WidgetObj Home)) ''top-left'' s))))))"

text \<open>The handles of a widget set that are present, and those that can be torn down.\<close>

definition present :: "handle option list \<Rightarrow> handle list" where
  "present slots = List.map_filter (\<lambda>w. w) slots"

definition destroyable :: "handle option list \<Rightarrow> handle list" where
  "destroyable slots = filter has_destroy (present slots)"

text \<open>The console lines of the teardowns that throw.\<close>

definition teardown_errors :: "sdk \<Rightarrow> string \<Rightarrow> handle list \<Rightarrow> log_entry list" where
  "teardown_errors k msg hs =
     List.map_filter
       (\<lambda>h. map_option (\<lambda>e. ErrorLog msg (to_string e)) (destroy_throws k (ident h))) hs"

text \<open>The console line \<^verbatim>\<open>addPointsToLayer\<close> writes for a skipped point.\<close>

definition layer_warning :: "point \<Rightarrow> log_entry" where
  "layer_warning p =
     (case coordinates p of
        None \<Rightarrow> Warn ''Skipping invalid point:'' p
      | Some cs \<Rightarrow> if length cs < 2 then Warn ''Skipping invalid point:'' p
                   else Warn ''Skipping point with invalid coordinates:'' p)"



text \<open>Some behaviours of the SDK: nothing throws; one constructor or one teardown throws.\<close>

definition sdk_ok :: sdk where
  "sdk_ok = \<lparr>ctor_throws = (\<lambda>t. None), destroy_throws = (\<lambda>t. None),
             when_rejects = None, goTo_rejects = None\<rparr>"

definition sdk_ctor_fails :: "sdk_object \<Rightarrow> sdk" where
  "sdk_ctor_fails bad =
     \<lparr>ctor_throws = (\<lambda>t. if t = bad then Some (ErrorObj ''TypeError'' ''no context'') else None),
      destroy_throws = (\<lambda>t. None), when_rejects = None, goTo_rejects = None\<rparr>"

definition sdk_destroy_fails :: "sdk_object \<Rightarrow> sdk" where
  "sdk_destroy_fails bad =
     \<lparr>ctor_throws = (\<lambda>t. None),
      destroy_throws = (\<lambda>t. if t = bad then Some (ErrorObj ''Error'' ''already destroyed'') else None),
      when_rejects = None, goTo_rejects = None\<rparr>"

text \<open>The state a successful \<^verbatim>\<open>initializeMap\<close> leaves behind.\<close>

definition init_ok :: "state \<Rightarrow> state" where
  "init_ok s = place_defaults
     (s\<lparr>graphics := [], ui := [], constructed := constructed s @ init_order,
        viewRef := Some (new_handle ViewObj), widgetsRef := full_widgets True\<rparr>)"

text \<open>The callback of \<^verbatim>\<open>destroyWidgets\<close>, named.\<close>

definition destroy_slot :: "sdk \<Rightarrow> handle option \<Rightarrow> unit js" where
  "destroy_slot k widget =
     try_catch
       (case widget of
          Some w \<Rightarrow> if has_destroy w then invoke_destroy k w else return_js ()
        | None \<Rightarrow> return_js ())
       (\<lambda>error. console_error ''Failed to destroy widget:'' error)"

text \<open>A widget set with two slots filled by handles without a teardown function.\<close>

definition partial_widgets :: WidgetsState where
  "partial_widgets =
     empty_widgets\<lparr>home := Some \<lparr>ident = WidgetObj Home, destroy = DestroyAbsent\<rparr>,
                   search := Some \<lparr>ident = WidgetObj Search, destroy = DestroyOther\<rparr>\<rparr>"


text \<open>
  What the refs hold against what was constructed, in every state of the first run of
  the mount effect: no teardown has been called, and either nothing is referenced and the
  initialization constructed nothing or stopped at a constructor that threw, or the view
  and the full widget set are referenced and everything was constructed.
\<close>

definition lifetime_inv :: "sdk \<Rightarrow> state \<Rightarrow> bool" where
  "lifetime_inv k s =
     (teardowns s = [] \<and>
      ((viewRef s = None \<and> widgetsRef s = empty_widgets \<and>
        (constructed s = [] \<or>
         (first_failure k init_order \<noteq> None \<and> constructed s = built k init_order))) \<or>
       (viewRef s = Some (new_handle ViewObj) \<and> widgetsRef s = full_widgets True \<and>
        constructed s = init_order)))"

text \<open>The objects the cleanup is responsible for: the view and the widgets.\<close>

fun owned :: "sdk_object \<Rightarrow> bool" where
  "owned ViewObj = True"
| "owned (WidgetObj w) = True"
| "owned t = False"





section \<open>The bounds computation: properties\<close>

lemma bounds_callback_cases:
  "bounds_callback p (v, out) =
     (case lon_lat p of
        None \<Rightarrow> (v, out @ [skip_warning p])
      | Some c \<Rightarrow> (extend c v, out))"
proof (cases "coordinates p")
  case None
  then show ?thesis
    by (simp add: bounds_callback_def lon_lat_def skip_warning_def)
next
  case (Some cs)
  show ?thesis
  proof (cases cs)
    case Nil
    with Some show ?thesis
      by (simp add: bounds_callback_def lon_lat_def skip_warning_def)
  next
    case (Cons a as)
    note outer = this
    show ?thesis
    proof (cases as)
      case Nil
      with Some outer show ?thesis
        by (cases a) (simp_all add: bounds_callback_def lon_lat_def skip_warning_def)
    next
      case (Cons b bs)
      with Some outer show ?thesis
        by (cases a; cases b)
           (simp_all add: bounds_callback_def lon_lat_def skip_warning_def extend_def)
    qed
  qed
qed

lemma isNaN_iff: "isNaN n \<longleftrightarrow> n = NaN"
  by (cases n) simp_all

lemma lon_lat_None_iff: "lon_lat p = None \<longleftrightarrow> excluded p"
proof (cases "coordinates p")
  case None
  then show ?thesis by (simp add: lon_lat_def excluded_def)
next
  case (Some cs)
  show ?thesis
  proof (cases cs)
    case Nil
    with Some show ?thesis by (simp add: lon_lat_def excluded_def)
  next
    case (Cons a as)
    note outer = this
    show ?thesis
    proof (cases as)
      case Nil
      with Some outer show ?thesis
        by (cases a) (simp_all add: lon_lat_def excluded_def)
    next
      case (Cons b bs)
      with Some outer show ?thesis
        by (cases a; cases b)
           (simp_all add: lon_lat_def excluded_def invalid_entry_def isNaN_iff)
    qed
  qed
qed

lemma fold_bounds_callback:
  "fold bounds_callback ps (v, out) =
     (fold extend (List.map_filter lon_lat ps) v,
      out @ map skip_warning (filter excluded ps))"
proof (induction ps arbitrary: v out)
  case Nil
  show ?case by (simp add: List.map_filter_simps)
next
  case (Cons p ps)
  show ?case
  proof (cases "lon_lat p")
    case None
    then have "excluded p" by (simp add: lon_lat_None_iff)
    with None show ?thesis
      by (simp add: bounds_callback_cases Cons.IH List.map_filter_simps)
  next
    case (Some c)
    then have "\<not> excluded p" using lon_lat_None_iff [of p] by simp
    with Some show ?thesis
      by (simp add: bounds_callback_cases Cons.IH List.map_filter_simps)
  qed
qed


lemma extend_Fin:
  "extend (Fin x, Fin y) \<lparr>minLon = Fin a, minLat = Fin b, maxLon = Fin c, maxLat = Fin d\<rparr> =
     \<lparr>minLon = Fin (min a x), minLat = Fin (min b y), maxLon = Fin (max c x), maxLat = Fin (max d y)\<rparr>"
  by (simp add: extend_def Math_min_def Math_max_def min_def max_def)

lemma extend_init:
  "extend (Fin x, Fin y) bounds_init =
     \<lparr>minLon = Fin x, minLat = Fin y, maxLon = Fin x, maxLat = Fin y\<rparr>"
  by (simp add: extend_def Math_min_def Math_max_def bounds_init_def)

lemma fold_extend_Fin:
  "fold extend (map (\<lambda>(x, y). (Fin x, Fin y)) cs)
        \<lparr>minLon = Fin a, minLat = Fin b, maxLon = Fin c, maxLat = Fin d\<rparr> =
     \<lparr>minLon = Fin (Min (insert a (fst ` set cs))), minLat = Fin (Min (insert b (snd ` set cs))),
      maxLon = Fin (Max (insert c (fst ` set cs))), maxLat = Fin (Max (insert d (snd ` set cs)))\<rparr>"
proof (induction cs arbitrary: a b c d)
  case Nil
  show ?case by simp
next
  case (Cons xy cs)
  obtain x y where xy: "xy = (x, y)" by (cases xy)
  have m1: "\<And>a x S. finite S \<Longrightarrow> Min (insert (min a x) S) = Min (insert a (insert (x::real) S))"
    by (metis Min_insert Min_singleton finite.insertI insert_not_empty min.assoc)
  have m2: "\<And>a x S. finite S \<Longrightarrow> Max (insert (max a x) S) = Max (insert a (insert (x::real) S))"
    by (metis Max_insert Max_singleton finite.insertI insert_not_empty max.assoc)
  show ?case
    by (simp add: xy extend_Fin Cons.IH m1 m2)
qed


lemma map_filter_all_finite:
  "\<forall>p\<in>set ps. finite_lon_lat p \<noteq> None \<Longrightarrow>
     List.map_filter lon_lat ps = map (\<lambda>(x, y). (Fin x, Fin y)) (map (the \<circ> finite_lon_lat) ps)"
proof (induction ps)
  case Nil
  show ?case by (simp add: List.map_filter_simps)
next
  case (Cons p ps)
  from Cons.prems obtain x y where "finite_lon_lat p = Some (x, y)" by auto
  moreover from this have "lon_lat p = Some (Fin x, Fin y)"
    by (auto simp: finite_lon_lat_def split: option.splits prod.splits jsnum.splits)
  ultimately show ?case
    using Cons by (simp add: List.map_filter_simps)
qed

lemma filter_excluded_all_finite:
  "\<forall>p\<in>set ps. finite_lon_lat p \<noteq> None \<Longrightarrow> filter excluded ps = []"
  by (induction ps)
     (auto simp: finite_lon_lat_def lon_lat_None_iff [symmetric] split: option.splits)

lemma calculateBounds_finite:
  assumes ne: "ps \<noteq> []" and fin: "\<forall>p\<in>set ps. finite_lon_lat p \<noteq> None"
  shows "calculateBounds ps out =
           (Inr [[Fin (Min ((fst \<circ> the \<circ> finite_lon_lat) ` set ps)),
                  Fin (Min ((snd \<circ> the \<circ> finite_lon_lat) ` set ps))],
                 [Fin (Max ((fst \<circ> the \<circ> finite_lon_lat) ` set ps)),
                  Fin (Max ((snd \<circ> the \<circ> finite_lon_lat) ` set ps))]], out)"
proof -
  from ne obtain p ps' where ps: "ps = p # ps'" by (cases ps) auto
  obtain x y where p: "(the \<circ> finite_lon_lat) p = (x, y)" by (cases "(the \<circ> finite_lon_lat) p")
  let ?cs = "map (the \<circ> finite_lon_lat) ps'"
  have "List.map_filter lon_lat ps = (Fin x, Fin y) # map (\<lambda>(x, y). (Fin x, Fin y)) ?cs"
    using map_filter_all_finite [OF fin] p by (simp add: ps)
  then have "fold extend (List.map_filter lon_lat ps) bounds_init =
          fold extend (map (\<lambda>(x, y). (Fin x, Fin y)) ?cs)
            \<lparr>minLon = Fin x, minLat = Fin y, maxLon = Fin x, maxLat = Fin y\<rparr>"
    by (simp add: extend_init)
  also have "\<dots> = \<lparr>minLon = Fin (Min (insert x (fst ` set ?cs))),
                    minLat = Fin (Min (insert y (snd ` set ?cs))),
                    maxLon = Fin (Max (insert x (fst ` set ?cs))),
                    maxLat = Fin (Max (insert y (snd ` set ?cs)))\<rparr>"
    by (rule fold_extend_Fin)
  finally have "fold extend (List.map_filter lon_lat ps) bounds_init =
      \<lparr>minLon = Fin (Min ((fst \<circ> the \<circ> finite_lon_lat) ` set ps)),
       minLat = Fin (Min ((snd \<circ> the \<circ> finite_lon_lat) ` set ps)),
       maxLon = Fin (Max ((fst \<circ> the \<circ> finite_lon_lat) ` set ps)),
       maxLat = Fin (Max ((snd \<circ> the \<circ> finite_lon_lat) ` set ps))\<rparr>"
    using p by (simp add: ps image_image)
  then show ?thesis
    using ne by (simp add: calculateBounds_def fold_bounds_callback filter_excluded_all_finite [OF fin])
qed

subsection \<open>C1: the box of a list of valid points\<close>

text \<open>
  C1, as amended. For every non-empty list of points whose first two coordinates are
  finite numbers, \<^verbatim>\<open>calculateBounds\<close> returns a box
  \<open>[[Fin a, Fin b], [Fin c, Fin d]]\<close> and writes nothing to the console; every point
  has \<open>a \<le> lon \<le> c\<close> and \<open>b \<le> lat \<le> d\<close>; each of the four bounds is the
  coordinate of some point; \<open>a \<le> c\<close> and \<open>b \<le> d\<close>. The points A (30, 30) and
  B (32, 28) give \<open>[[30, 28], [32, 30]]\<close>.
\<close>

theorem calculateBounds_box:
  "(ps \<noteq> [] \<and> (\<forall>p\<in>set ps. finite_lon_lat p \<noteq> None) \<longrightarrow>
      (\<exists>a b c d.
         calculateBounds ps out = (Inr [[Fin a, Fin b], [Fin c, Fin d]], out) \<and>
         (\<forall>p\<in>set ps. \<forall>x y. finite_lon_lat p = Some (x, y) \<longrightarrow> a \<le> x \<and> x \<le> c \<and> b \<le> y \<and> y \<le> d) \<and>
         (\<exists>p\<in>set ps. \<exists>y. finite_lon_lat p = Some (a, y)) \<and>
         (\<exists>p\<in>set ps. \<exists>x. finite_lon_lat p = Some (x, b)) \<and>
         (\<exists>p\<in>set ps. \<exists>y. finite_lon_lat p = Some (c, y)) \<and>
         (\<exists>p\<in>set ps. \<exists>x. finite_lon_lat p = Some (x, d)) \<and>
         a \<le> c \<and> b \<le> d)) \<and>
   calculateBounds [point_A, point_B] out = (Inr [[Fin 30, Fin 28], [Fin 32, Fin 30]], out)"
proof (intro conjI impI)
  assume h: "ps \<noteq> [] \<and> (\<forall>p\<in>set ps. finite_lon_lat p \<noteq> None)"
  then have ne: "ps \<noteq> []" and fin: "\<forall>p\<in>set ps. finite_lon_lat p \<noteq> None" by simp_all
  let ?X = "(fst \<circ> the \<circ> finite_lon_lat) ` set ps"
  let ?Y = "(snd \<circ> the \<circ> finite_lon_lat) ` set ps"
  have fX: "finite ?X" and fY: "finite ?Y" by simp_all
  have neX: "?X \<noteq> {}" and neY: "?Y \<noteq> {}" using ne by simp_all
  have inX: "\<And>p x y. p \<in> set ps \<Longrightarrow> finite_lon_lat p = Some (x, y) \<Longrightarrow> x \<in> ?X"
    by (metis comp_apply fst_conv image_eqI option.sel)
  have inY: "\<And>p x y. p \<in> set ps \<Longrightarrow> finite_lon_lat p = Some (x, y) \<Longrightarrow> y \<in> ?Y"
    by (metis comp_apply snd_conv image_eqI option.sel)
  have exX: "\<And>a. a \<in> ?X \<Longrightarrow> \<exists>p\<in>set ps. \<exists>y. finite_lon_lat p = Some (a, y)"
    using fin by fastforce
  have exY: "\<And>b. b \<in> ?Y \<Longrightarrow> \<exists>p\<in>set ps. \<exists>x. finite_lon_lat p = Some (x, b)"
    using fin by fastforce
  show "\<exists>a b c d.
         calculateBounds ps out = (Inr [[Fin a, Fin b], [Fin c, Fin d]], out) \<and>
         (\<forall>p\<in>set ps. \<forall>x y. finite_lon_lat p = Some (x, y) \<longrightarrow> a \<le> x \<and> x \<le> c \<and> b \<le> y \<and> y \<le> d) \<and>
         (\<exists>p\<in>set ps. \<exists>y. finite_lon_lat p = Some (a, y)) \<and>
         (\<exists>p\<in>set ps. \<exists>x. finite_lon_lat p = Some (x, b)) \<and>
         (\<exists>p\<in>set ps. \<exists>y. finite_lon_lat p = Some (c, y)) \<and>
         (\<exists>p\<in>set ps. \<exists>x. finite_lon_lat p = Some (x, d)) \<and>
         a \<le> c \<and> b \<le> d"
  proof (intro exI conjI)
    show "calculateBounds ps out = (Inr [[Fin (Min ?X), Fin (Min ?Y)], [Fin (Max ?X), Fin (Max ?Y)]], out)"
      by (rule calculateBounds_finite [OF ne fin])
    show "\<forall>p\<in>set ps. \<forall>x y. finite_lon_lat p = Some (x, y) \<longrightarrow>
            Min ?X \<le> x \<and> x \<le> Max ?X \<and> Min ?Y \<le> y \<and> y \<le> Max ?Y"
      using inX inY fX fY by (blast intro: Min_le Max_ge)
    show "\<exists>p\<in>set ps. \<exists>y. finite_lon_lat p = Some (Min ?X, y)"
      by (rule exX) (rule Min_in [OF fX neX])
    show "\<exists>p\<in>set ps. \<exists>x. finite_lon_lat p = Some (x, Min ?Y)"
      by (rule exY) (rule Min_in [OF fY neY])
    show "\<exists>p\<in>set ps. \<exists>y. finite_lon_lat p = Some (Max ?X, y)"
      by (rule exX) (rule Max_in [OF fX neX])
    show "\<exists>p\<in>set ps. \<exists>x. finite_lon_lat p = Some (x, Max ?Y)"
      by (rule exY) (rule Max_in [OF fY neY])
    show "Min ?X \<le> Max ?X" using Min_le [OF fX Max_in [OF fX neX]] .
    show "Min ?Y \<le> Max ?Y" using Min_le [OF fY Max_in [OF fY neY]] .
  qed
next
  show "calculateBounds [point_A, point_B] out = (Inr [[Fin 30, Fin 28], [Fin 32, Fin 30]], out)"
    by (simp add: calculateBounds_def bounds_callback_def bounds_init_def Math_min_def Math_max_def
          point_A_def point_B_def)
qed

theorem calculateBounds_box_witness:
  "[point_A, point_B] \<noteq> [] \<and> finite_lon_lat point_A \<noteq> None \<and> finite_lon_lat point_B \<noteq> None \<and>
   (\<exists>a b c d. calculateBounds [point_A, point_B] [] = (Inr [[Fin a, Fin b], [Fin c, Fin d]], []) \<and>
      a \<le> c \<and> b \<le> d)"
proof -
  have a: "finite_lon_lat point_A \<noteq> None" and b: "finite_lon_lat point_B \<noteq> None"
    by (simp_all add: point_A_def point_B_def finite_lon_lat_def lon_lat_def)
  then have h: "[point_A, point_B] \<noteq> [] \<and> (\<forall>p\<in>set [point_A, point_B]. finite_lon_lat p \<noteq> None)"
    by simp
  from calculateBounds_box [of "[point_A, point_B]" "[]"] h
  have "\<exists>a b c d. calculateBounds [point_A, point_B] [] = (Inr [[Fin a, Fin b], [Fin c, Fin d]], []) \<and>
      a \<le> c \<and> b \<le> d"
    by blast
  with a b show ?thesis by simp
qed

text \<open>
  C1 as stated, for every list of structurally valid points, fails: a point whose
  longitude is \<^verbatim>\<open>Infinity\<close> passes every check on its coordinates, and the final
  test of the four bounds then throws.
\<close>

theorem calculateBounds_infinite_counterexample:
  "\<not> spec_excluded point_Inf \<and>
   calculateBounds [point_Inf] [] = (Inl (Error ''Invalid bounds calculated from points''), [])"
  by (simp add: calculateBounds_def bounds_callback_def bounds_init_def Math_min_def Math_max_def
        point_Inf_def spec_excluded_def invalid_entry_def)


subsection \<open>C2: which records the bounds computation skips\<close>

lemma addPoints_callback_cases:
  "addPoints_callback p s =
     (case lon_lat p of
        None \<Rightarrow> s\<lparr>console := console s @ [layer_warning p]\<rparr>
      | Some c \<Rightarrow> s\<lparr>graphics := graphics s @ [(fst c, snd c, p)]\<rparr>)"
proof (cases "coordinates p")
  case None
  then show ?thesis
    by (simp add: addPoints_callback_def lon_lat_def layer_warning_def)
next
  case (Some cs)
  show ?thesis
  proof (cases cs)
    case Nil
    with Some show ?thesis
      by (simp add: addPoints_callback_def lon_lat_def layer_warning_def)
  next
    case (Cons a as)
    note outer = this
    show ?thesis
    proof (cases as)
      case Nil
      with Some outer show ?thesis
        by (cases a) (simp_all add: addPoints_callback_def lon_lat_def layer_warning_def)
    next
      case (Cons b bs)
      with Some outer show ?thesis
        by (cases a; cases b)
           (simp_all add: addPoints_callback_def lon_lat_def layer_warning_def)
    qed
  qed
qed

lemma fold_addPoints_callback:
  "fold addPoints_callback ps s =
     s\<lparr>graphics := graphics s @ map (\<lambda>p. (fst (the (lon_lat p)), snd (the (lon_lat p)), p))
                                    (filter (\<lambda>p. \<not> excluded p) ps),
       console := console s @ map layer_warning (filter excluded ps)\<rparr>"
proof (induction ps arbitrary: s)
  case Nil
  show ?case by simp
next
  case (Cons p ps)
  show ?case
  proof (cases "lon_lat p")
    case None
    then have ex: "excluded p" by (simp add: lon_lat_None_iff)
    have step: "addPoints_callback p s = s\<lparr>console := console s @ [layer_warning p]\<rparr>"
      using None by (simp add: addPoints_callback_cases [of p s])
    show ?thesis
      using ex by (simp add: step Cons.IH)
  next
    case (Some c)
    then have nex: "\<not> excluded p" using lon_lat_None_iff [of p] by simp
    have step: "addPoints_callback p s = s\<lparr>graphics := graphics s @ [(fst c, snd c, p)]\<rparr>"
      using Some by (simp add: addPoints_callback_cases [of p s])
    show ?thesis
      using nex Some by (simp add: step Cons.IH)
  qed
qed

lemma map_filter_not_excluded:
  "List.map_filter lon_lat (filter (\<lambda>p. \<not> excluded p) ps) = List.map_filter lon_lat ps"
  by (induction ps)
     (auto simp: List.map_filter_simps lon_lat_None_iff [symmetric] split: option.splits)

lemma filter_excluded_not_excluded: "filter excluded (filter (\<lambda>p. \<not> excluded p) ps) = []"
  by (induction ps) auto

lemma calculateBounds_filter:
  assumes "filter (\<lambda>p. \<not> excluded p) ps \<noteq> []"
  shows "fst (calculateBounds ps out) = fst (calculateBounds (filter (\<lambda>p. \<not> excluded p) ps) out)"
proof -
  from assms have "ps \<noteq> []" by auto
  with assms show ?thesis
    by (simp add: calculateBounds_def fold_bounds_callback map_filter_not_excluded)
qed

lemma calculateBounds_console:
  "snd (calculateBounds ps out) = out @ map skip_warning (filter excluded ps)"
  by (simp add: calculateBounds_def fold_bounds_callback)


text \<open>
  C2, as amended. The callback of the bounds computation skips a record (leaves the four
  bounds as they are and writes one warning) exactly when its coordinates field is missing,
  has fewer than two entries, or has a non-number or NaN among its first two entries; every
  other record is taken into the bounds and nothing is written. So the result for a list
  is the result for the list without the skipped records (when one remains), the console
  gains one warning for each skipped record, and the layer receives a graphic for exactly
  the records that are not skipped. The points A (30, 30) and B ("x", 28) give
  \<open>[[30, 30], [30, 30]]\<close> and one warning for B.
\<close>

theorem calculateBounds_skips_invalid:
  "(excluded p \<longrightarrow> bounds_callback p (v, out) = (v, out @ [skip_warning p])) \<and>
   (\<not> excluded p \<longrightarrow> (\<exists>c. lon_lat p = Some c \<and> bounds_callback p (v, out) = (extend c v, out))) \<and>
   (filter (\<lambda>p. \<not> excluded p) ps \<noteq> [] \<longrightarrow>
      fst (calculateBounds ps out) = fst (calculateBounds (filter (\<lambda>p. \<not> excluded p) ps) out)) \<and>
   snd (calculateBounds ps out) = out @ map skip_warning (filter excluded ps) \<and>
   graphics (snd (addPointsToLayer ps layer s)) =
     graphics s @ map (\<lambda>p. (fst (the (lon_lat p)), snd (the (lon_lat p)), p))
                      (filter (\<lambda>p. \<not> excluded p) ps) \<and>
   calculateBounds [point_A, point_B_bad] out =
     (Inr [[Fin 30, Fin 30], [Fin 30, Fin 30]], out @ [Warn ''Invalid coordinate values:'' point_B_bad])"
proof (intro conjI impI)
  assume "excluded p"
  then show "bounds_callback p (v, out) = (v, out @ [skip_warning p])"
    by (simp add: bounds_callback_cases lon_lat_None_iff [symmetric])
next
  assume "\<not> excluded p"
  then obtain c where "lon_lat p = Some c" using lon_lat_None_iff [of p] by auto
  then show "\<exists>c. lon_lat p = Some c \<and> bounds_callback p (v, out) = (extend c v, out)"
    by (simp add: bounds_callback_cases)
next
  assume "filter (\<lambda>p. \<not> excluded p) ps \<noteq> []"
  then show "fst (calculateBounds ps out) = fst (calculateBounds (filter (\<lambda>p. \<not> excluded p) ps) out)"
    by (rule calculateBounds_filter)
next
  show "snd (calculateBounds ps out) = out @ map skip_warning (filter excluded ps)"
    by (rule calculateBounds_console)
next
  show "graphics (snd (addPointsToLayer ps layer s)) =
     graphics s @ map (\<lambda>p. (fst (the (lon_lat p)), snd (the (lon_lat p)), p))
                      (filter (\<lambda>p. \<not> excluded p) ps)"
    by (simp add: addPointsToLayer_def fold_addPoints_callback Let_def split: prod.splits)
next
  show "calculateBounds [point_A, point_B_bad] out =
     (Inr [[Fin 30, Fin 30], [Fin 30, Fin 30]], out @ [Warn ''Invalid coordinate values:'' point_B_bad])"
    by (simp add: calculateBounds_def bounds_callback_def bounds_init_def Math_min_def Math_max_def
          point_A_def point_B_bad_def)
qed

theorem calculateBounds_skips_invalid_witness:
  "excluded point_B_bad \<and> \<not> excluded point_A \<and>
   filter (\<lambda>p. \<not> excluded p) [point_A, point_B_bad] = [point_A] \<and>
   bounds_callback point_B_bad (bounds_init, []) = (bounds_init, [skip_warning point_B_bad]) \<and>
   (\<exists>c. lon_lat point_A = Some c \<and> bounds_callback point_A (bounds_init, []) = (extend c bounds_init, [])) \<and>
   fst (calculateBounds [point_A, point_B_bad] []) = fst (calculateBounds [point_A] [])"
proof -
  have b: "excluded point_B_bad" and a: "\<not> excluded point_A"
    by (simp_all add: excluded_def point_A_def point_B_bad_def invalid_entry_def)
  then have f: "filter (\<lambda>p. \<not> excluded p) [point_A, point_B_bad] = [point_A]" by simp
  from calculateBounds_skips_invalid [of point_B_bad bounds_init "[]" "[point_A, point_B_bad]"] b
  have 1: "bounds_callback point_B_bad (bounds_init, []) = (bounds_init, [skip_warning point_B_bad])"
    by simp
  from calculateBounds_skips_invalid [of point_A bounds_init "[]" "[point_A, point_B_bad]"] a
  have 2: "\<exists>c. lon_lat point_A = Some c \<and> bounds_callback point_A (bounds_init, []) = (extend c bounds_init, [])"
    by simp
  from calculateBounds_skips_invalid [of point_A bounds_init "[]" "[point_A, point_B_bad]"]
  have "filter (\<lambda>p. \<not> excluded p) [point_A, point_B_bad] \<noteq> [] \<longrightarrow>
          fst (calculateBounds [point_A, point_B_bad] []) =
          fst (calculateBounds (filter (\<lambda>p. \<not> excluded p) [point_A, point_B_bad]) [])"
    by blast
  then have 3: "fst (calculateBounds [point_A, point_B_bad] []) = fst (calculateBounds [point_A] [])"
    unfolding f by simp
  from a b f 1 2 3 show ?thesis by blast
qed

text \<open>
  C2 as stated fails: a record whose third entry is a string contains a non-number, and
  is not skipped. Only the first two entries are read.
\<close>

theorem calculateBounds_third_entry_counterexample:
  "spec_excluded point_3 \<and>
   calculateBounds [point_3] [] = (Inr [[Fin 30, Fin 30], [Fin 30, Fin 30]], [])"
  by (simp add: calculateBounds_def bounds_callback_def bounds_init_def Math_min_def Math_max_def
        point_3_def spec_excluded_def invalid_entry_def)

section \<open>The factory and the initialization: properties\<close>

lemma try_new:
  "try_catch (sdk_new k t) (\<lambda>error. throw_js (Error (l @ to_string error))) =
     (\<lambda>s. case ctor_throws k t of
        Some e \<Rightarrow> (Inl (Error (l @ to_string e)), s)
      | None \<Rightarrow>
          (Inr (new_handle t),
           if t = ViewObj then s\<lparr>constructed := constructed s @ [t], ui := []\<rparr>
           else if t = LayerObj then s\<lparr>constructed := constructed s @ [t], graphics := []\<rparr>
           else s\<lparr>constructed := constructed s @ [t]\<rparr>))"
  by (rule ext) (simp add: try_catch_def sdk_new_def throw_js_def new_handle_def split: option.splits)

lemma creators:
  "createMap k b = guarded_new k MapObj"
  "createMapView k c m = guarded_new k ViewObj"
  "createGraphicsLayer k i = guarded_new k LayerObj"
  "createHomeWidget k v = guarded_new k (WidgetObj Home)"
  "createCompassWidget k v = guarded_new k (WidgetObj Compass)"
  "createLocateWidget k v = guarded_new k (WidgetObj Locate)"
  "createSearchWidget k v = guarded_new k (WidgetObj Search)"
  "createScaleBarWidget k v = guarded_new k (WidgetObj ScaleBar)"
  "createFullscreenWidget k v = guarded_new k (WidgetObj Fullscreen)"
  "createBasemapGallery k v = guarded_new k (WidgetObj BasemapGallery)"
  "createCoordinateConversionWidget k v = guarded_new k (WidgetObj CoordinateConversion)"
  "createMeasurementWidget k v = guarded_new k (WidgetObj Measurement)"
  "createSketchWidget k v l = guarded_new k (WidgetObj Sketch)"
  unfolding createMap_def createMapView_def createGraphicsLayer_def createHomeWidget_def
        createCompassWidget_def createLocateWidget_def createSearchWidget_def
        createScaleBarWidget_def createFullscreenWidget_def createBasemapGallery_def
        createCoordinateConversionWidget_def createMeasurementWidget_def createSketchWidget_def
        try_new guarded_new_def
  by (simp_all cong: option.case_cong)

lemma to_string_Error: "m \<noteq> [] \<Longrightarrow> to_string (Error m) = ''Error: '' @ m"
  by (simp add: Error_def)

lemma failure_label_nonempty: "failure_label t \<noteq> []"
proof (cases t)
  case (WidgetObj w)
  then show ?thesis by (cases w) simp_all
qed simp_all

lemma createAllWidgets_run:
  "createAllWidgets k view layer s =
     (case first_failure k (widget_order (layer \<noteq> None)) of
        None \<Rightarrow> Inr (full_widgets (layer \<noteq> None))
      | Some (t, e) \<Rightarrow>
          Inl (Error (''Failed to create widgets: '' @ to_string (Error (failure_label t @ to_string e)))),
      s\<lparr>constructed := constructed s @ built k (widget_order (layer \<noteq> None))\<rparr>)"
  by (cases layer)
     (simp_all add: createAllWidgets_def creators try_catch_def widget_order_def full_widgets_def
        bind_js_def guarded_new_def return_js_def throw_js_def split: option.splits)

lemma first_failure_widget:
  "first_failure k (widget_order b) = Some (t, e) \<Longrightarrow> \<exists>w. t = WidgetObj w"
  by (auto simp: widget_order_def split: option.splits if_splits)

lemma createAllWidgets_result:
  "createAllWidgets k view layer s =
     (case first_failure k (widget_order (layer \<noteq> None)) of
        None \<Rightarrow> Inr (full_widgets (layer \<noteq> None))
      | Some (t, e) \<Rightarrow> Inl (factory_error t e),
      s\<lparr>constructed := constructed s @ built k (widget_order (layer \<noteq> None))\<rparr>)"
proof (cases "first_failure k (widget_order (layer \<noteq> None))")
  case None
  then show ?thesis by (simp add: createAllWidgets_run)
next
  case (Some te)
  obtain t e where te: "te = (t, e)" by (cases te)
  with Some obtain w where "t = WidgetObj w" using first_failure_widget by blast
  then have "factory_error t e =
      Error (''Failed to create widgets: '' @ to_string (Error (failure_label t @ to_string e)))"
    using failure_label_nonempty [of t]
    by (simp add: factory_error_def to_string_Error)
  with Some te show ?thesis by (simp add: createAllWidgets_run)
qed

lemma built_all: "first_failure k ts = None \<Longrightarrow> built k ts = ts"
  by (induction ts) (auto split: option.splits)

lemma initializeMap_run:
  "initializeMap k s =
     (case mapDivRef s of
        None \<Rightarrow> (Inl (Error ''Map container not found''), s)
      | Some c \<Rightarrow>
          (case first_failure k init_order of
             None \<Rightarrow> (Inr (new_handle ViewObj, new_handle LayerObj), init_ok s)
           | Some (t, e) \<Rightarrow>
               (Inl (Error (''Map initialization failed: '' @ to_string (factory_error t e))),
                s\<lparr>constructed := constructed s @ built k init_order,
                  ui := (if ViewObj \<in> set (built k init_order) then [] else ui s),
                  graphics := (if LayerObj \<in> set (built k init_order) then [] else graphics s)\<rparr>)))"
proof (cases "mapDivRef s")
  case None
  then show ?thesis
    by (simp add: initializeMap_def bind_js_def read_js_def throw_js_def)
next
  case (Some c)
  show ?thesis
  proof (cases "ctor_throws k MapObj")
    case e: (Some e)
    with Some show ?thesis
      by (simp add: initializeMap_def bind_js_def read_js_def throw_js_def try_catch_def creators
          guarded_new_def init_order_def factory_error_def)
  next
    case m: None
    show ?thesis
    proof (cases "ctor_throws k LayerObj")
      case e: (Some e)
      with Some m show ?thesis
        by (simp add: initializeMap_def bind_js_def read_js_def throw_js_def try_catch_def creators
            guarded_new_def init_order_def factory_error_def)
    next
      case l: None
      show ?thesis
      proof (cases "ctor_throws k ViewObj")
        case e: (Some e)
        with Some m l show ?thesis
          by (simp add: initializeMap_def bind_js_def read_js_def throw_js_def try_catch_def creators
              guarded_new_def init_order_def factory_error_def)
      next
        case v: None
        show ?thesis
        proof (cases "first_failure k (widget_order True)")
          case None
          with Some m l v show ?thesis
            by (simp add: initializeMap_def bind_js_def read_js_def throw_js_def try_catch_def
                creators(1-3) guarded_new_def init_order_def createAllWidgets_result modify_js_def
                return_js_def init_ok_def place_defaults_def full_widgets_def built_all)
        next
          case f: (Some te)
          obtain t e where te: "te = (t, e)" by (cases te)
          with Some m l v f show ?thesis
            by (simp add: initializeMap_def bind_js_def read_js_def throw_js_def try_catch_def
                creators(1-3) guarded_new_def init_order_def createAllWidgets_result)
        qed
      qed
    qed
  qed
qed

lemma addPointsToLayer_result:
  "addPointsToLayer ps layer s =
     (fst (calculateBounds ps (console s @ map layer_warning (filter excluded ps))),
      s\<lparr>graphics := graphics s @ map (\<lambda>p. (fst (the (lon_lat p)), snd (the (lon_lat p)), p))
                                     (filter (\<lambda>p. \<not> excluded p) ps),
        console := snd (calculateBounds ps (console s @ map layer_warning (filter excluded ps)))\<rparr>)"
  by (simp add: addPointsToLayer_def fold_addPoints_callback Let_def split: prod.splits)

lemma setup_catch_Error:
  "mounted s \<Longrightarrow> setup_catch (Error msg) s = s\<lparr>error := Some msg, loading := False, pending := Finished\<rparr>"
  by (simp add: setup_catch_def Error_def)

lemma lifecycle_Failed: "error s = Some msg \<Longrightarrow> msg \<noteq> [] \<Longrightarrow> lifecycle_of s = Failed"
  by (simp add: lifecycle_of_def)

subsection \<open>C3: no usable point\<close>







section \<open>Teardown: properties\<close>

lemma destroy_slot_run:
  "destroy_slot k widget s =
     (Inr (),
      s\<lparr>teardowns := teardowns s @ map ident (destroyable [widget]),
        console := console s @ teardown_errors k ''Failed to destroy widget:'' (destroyable [widget])\<rparr>)"
proof (cases widget)
  case None
  then show ?thesis
    by (simp add: destroy_slot_def try_catch_def return_js_def destroyable_def present_def
        teardown_errors_def List.map_filter_simps)
next
  case (Some w)
  then show ?thesis
    by (cases "destroy_throws k (ident w)")
       (simp_all add: destroy_slot_def try_catch_def return_js_def destroyable_def present_def
          teardown_errors_def List.map_filter_simps invoke_destroy_def console_error_def
          modify_js_def)
qed

lemma destroyable_Cons: "destroyable (w # ws) = destroyable [w] @ destroyable ws"
  by (cases w) (simp_all add: destroyable_def present_def List.map_filter_simps)

lemma teardown_errors_append:
  "teardown_errors k msg (xs @ ys) = teardown_errors k msg xs @ teardown_errors k msg ys"
  by (simp add: teardown_errors_def List.map_filter_def)

lemma forEach_destroy_slot:
  "forEach slots (destroy_slot k) s =
     (Inr (),
      s\<lparr>teardowns := teardowns s @ map ident (destroyable slots),
        console := console s @ teardown_errors k ''Failed to destroy widget:'' (destroyable slots)\<rparr>)"
proof (induction slots arbitrary: s)
  case Nil
  show ?case
    by (simp add: return_js_def destroyable_def present_def teardown_errors_def
        List.map_filter_simps)
next
  case (Cons w ws)
  let ?s' = "s\<lparr>teardowns := teardowns s @ map ident (destroyable [w]),
               console := console s @ teardown_errors k ''Failed to destroy widget:'' (destroyable [w])\<rparr>"
  have "forEach (w # ws) (destroy_slot k) s = forEach ws (destroy_slot k) ?s'"
    by (simp add: bind_js_def destroy_slot_run [of k w s])
  then show ?case
    by (simp add: Cons.IH [of ?s'] destroyable_Cons [of w ws] teardown_errors_append)
qed

lemma destroyWidgets_run:
  "destroyWidgets k ws s =
     (Inr (),
      s\<lparr>teardowns := teardowns s @ map ident (destroyable (Object_values ws)),
        console := console s @
          teardown_errors k ''Failed to destroy widget:'' (destroyable (Object_values ws))\<rparr>)"
  using forEach_destroy_slot [of "Object_values ws" k s]
  by (simp add: destroyWidgets_def destroy_slot_def [abs_def])

lemma destroyView_run:
  "destroyView k view s =
     (Inr (),
      s\<lparr>teardowns := teardowns s @ map ident (destroyable [view]),
        console := console s @ teardown_errors k ''Failed to destroy view:'' (destroyable [view])\<rparr>)"
proof (cases view)
  case None
  then show ?thesis
    by (simp add: destroyView_def return_js_def destroyable_def present_def
        teardown_errors_def List.map_filter_simps)
next
  case (Some v)
  then show ?thesis
    by (cases "destroy_throws k (ident v)")
       (simp_all add: destroyView_def try_catch_def return_js_def destroyable_def present_def
          teardown_errors_def List.map_filter_simps invoke_destroy_def console_error_def
          modify_js_def)
qed

lemma cleanup_run:
  "cleanup k s =
     (Inr (),
      s\<lparr>mounted := False,
        teardowns := teardowns s @ map ident (destroyable (Object_values (widgetsRef s))) @
                     map ident (destroyable [viewRef s]),
        console := console s @
          teardown_errors k ''Failed to destroy widget:'' (destroyable (Object_values (widgetsRef s))) @
          teardown_errors k ''Failed to destroy view:'' (destroyable [viewRef s]),
        widgetsRef := empty_widgets, viewRef := None\<rparr>)"
proof (cases "viewRef s")
  case None
  then show ?thesis
    by (simp add: cleanup_def bind_js_def modify_js_def read_js_def return_js_def
        destroyWidgets_run destroyable_def present_def teardown_errors_def List.map_filter_simps)
next
  case (Some v)
  then show ?thesis
    by (simp add: cleanup_def bind_js_def modify_js_def read_js_def return_js_def
        destroyWidgets_run destroyView_run)
qed

lemma destroyable_full:
  "map ident (destroyable (Object_values (full_widgets True))) = widget_order True"
  "map ident (destroyable [Some (new_handle ViewObj)]) = [ViewObj]"
  "destroyable (Object_values empty_widgets) = []" "destroyable [None] = []"
  by (simp_all add: destroyable_def present_def Object_values_def full_widgets_def
      empty_widgets_def new_handle_def widget_order_def List.map_filter_simps has_destroy_def)


subsection \<open>C6: one failing teardown does not stop the others\<close>

text \<open>
  C6. For every widget set and whatever the teardowns do, \<^verbatim>\<open>destroyWidgets\<close> returns
  without throwing; it has called the teardown of every slot that holds a handle with a
  teardown function, in the order of the slots, whether or not an earlier teardown threw;
  and it has written one console error for each teardown that threw. The cleanup of the
  component, which calls it, goes on to the teardown of the view and returns as well.
\<close>

theorem destroyWidgets_tolerates_failures:
  "fst (destroyWidgets k ws s) = Inr () \<and>
   teardowns (snd (destroyWidgets k ws s)) =
     teardowns s @ map ident (destroyable (Object_values ws)) \<and>
   console (snd (destroyWidgets k ws s)) =
     console s @ teardown_errors k ''Failed to destroy widget:'' (destroyable (Object_values ws)) \<and>
   fst (cleanup k s) = Inr () \<and>
   teardowns (snd (cleanup k s)) =
     teardowns s @ map ident (destroyable (Object_values (widgetsRef s))) @
     map ident (destroyable [viewRef s])"
  by (simp add: destroyWidgets_run cleanup_run)

theorem destroyWidgets_tolerates_failures_witness:
  "destroy_throws (sdk_destroy_fails (WidgetObj Home)) (WidgetObj Home) \<noteq> None \<and>
   fst (destroyWidgets (sdk_destroy_fails (WidgetObj Home)) (full_widgets True) (initial_state None)) = Inr () \<and>
   teardowns (snd (destroyWidgets (sdk_destroy_fails (WidgetObj Home)) (full_widgets True) (initial_state None))) =
     map WidgetObj [Home, Compass, Locate, Search, ScaleBar, Fullscreen, BasemapGallery,
                    CoordinateConversion, Measurement, Sketch] \<and>
   console (snd (destroyWidgets (sdk_destroy_fails (WidgetObj Home)) (full_widgets True) (initial_state None))) =
     [ErrorLog ''Failed to destroy widget:'' ''Error: already destroyed'']"
  using destroyWidgets_tolerates_failures
    [of "sdk_destroy_fails (WidgetObj Home)" "full_widgets True" "initial_state None"]
  by (simp add: sdk_destroy_fails_def full_widgets_def initial_state_def Object_values_def
      destroyable_def present_def teardown_errors_def List.map_filter_simps new_handle_def
      has_destroy_def)

text \<open>
  The first version of the factory has no try block around the teardown: the first
  teardown that throws ends the iteration, and the error leaves \<^verbatim>\<open>destroyWidgets\<close>.
\<close>

lemma destroyWidgets_v1_propagates:
  "destroyWidgets_v1 (sdk_destroy_fails (WidgetObj Home)) (Object_values (full_widgets True))
     (initial_state None) =
     (Inl (ErrorObj ''Error'' ''already destroyed''),
      (initial_state None)\<lparr>teardowns := [WidgetObj Home]\<rparr>)"
  by (simp add: destroyWidgets_v1_def sdk_destroy_fails_def full_widgets_def initial_state_def
      Object_values_def new_handle_def bind_js_def invoke_destroy_def)

text \<open>
  It also throws at a present entry whose \<^verbatim>\<open>destroy\<close> is not a function, where
  the later factory skips the entry.
\<close>

lemma destroyWidgets_v1_not_a_function:
  "destroyWidgets_v1 k (Object_values partial_widgets) s =
     (Inl (ErrorObj ''TypeError'' ''w?.destroy is not a function''), s)"
  by (simp add: destroyWidgets_v1_def partial_widgets_def empty_widgets_def Object_values_def
      bind_js_def return_js_def throw_js_def)

subsection \<open>C10: teardown of absent handles\<close>

text \<open>
  C10. \<^verbatim>\<open>destroyView(null)\<close> and \<^verbatim>\<open>destroyWidgets({})\<close> return without throwing and
  change nothing. For every widget set and every view argument both helpers return
  without throwing; \<^verbatim>\<open>destroyWidgets\<close> calls teardowns of present handles only, and
  none at all when no present handle has a teardown function; \<^verbatim>\<open>destroyView\<close> on a
  view without a teardown function changes nothing.
\<close>

theorem teardown_helpers_total:
  "destroyView k None s = (Inr (), s) \<and>
   destroyWidgets k empty_widgets s = (Inr (), s) \<and>
   fst (destroyWidgets k ws s) = Inr () \<and>
   fst (destroyView k view s) = Inr () \<and>
   (\<exists>called. teardowns (snd (destroyWidgets k ws s)) = teardowns s @ called \<and>
      set called \<subseteq> ident ` set (present (Object_values ws))) \<and>
   ((\<forall>h\<in>set (present (Object_values ws)). \<not> has_destroy h) \<longrightarrow>
      destroyWidgets k ws s = (Inr (), s)) \<and>
   (\<not> has_destroy v \<longrightarrow> destroyView k (Some v) s = (Inr (), s))"
proof (intro conjI impI)
  show "destroyView k None s = (Inr (), s)"
    by (simp add: destroyView_def return_js_def)
  show "destroyWidgets k empty_widgets s = (Inr (), s)"
    by (simp add: destroyWidgets_run empty_widgets_def Object_values_def destroyable_def
        present_def teardown_errors_def List.map_filter_simps)
  show "fst (destroyWidgets k ws s) = Inr ()"
    by (simp add: destroyWidgets_run)
  show "fst (destroyView k view s) = Inr ()"
    by (simp add: destroyView_run)
  show "\<exists>called. teardowns (snd (destroyWidgets k ws s)) = teardowns s @ called \<and>
      set called \<subseteq> ident ` set (present (Object_values ws))"
    by (auto simp: destroyWidgets_run destroyable_def)
next
  assume "\<forall>h\<in>set (present (Object_values ws)). \<not> has_destroy h"
  then have "destroyable (Object_values ws) = []"
    by (simp add: destroyable_def filter_empty_conv)
  then show "destroyWidgets k ws s = (Inr (), s)"
    by (simp add: destroyWidgets_run teardown_errors_def List.map_filter_simps)
next
  assume "\<not> has_destroy v"
  then show "destroyView k (Some v) s = (Inr (), s)"
    by (simp add: destroyView_def return_js_def)
qed

theorem teardown_helpers_total_witness:
  "present (Object_values partial_widgets) =
     [\<lparr>ident = WidgetObj Home, destroy = DestroyAbsent\<rparr>, \<lparr>ident = WidgetObj Search, destroy = DestroyOther\<rparr>] \<and>
   destroyWidgets sdk_ok partial_widgets (initial_state None) = (Inr (), initial_state None) \<and>
   destroyView sdk_ok (Some \<lparr>ident = ViewObj, destroy = DestroyAbsent\<rparr>) (initial_state None) =
     (Inr (), initial_state None)"
proof -
  have p: "present (Object_values partial_widgets) =
     [\<lparr>ident = WidgetObj Home, destroy = DestroyAbsent\<rparr>, \<lparr>ident = WidgetObj Search, destroy = DestroyOther\<rparr>]"
    by (simp add: partial_widgets_def empty_widgets_def Object_values_def present_def
        List.map_filter_simps)
  then have h: "\<forall>h\<in>set (present (Object_values partial_widgets)). \<not> has_destroy h"
    by (simp add: has_destroy_def)
  note t = teardown_helpers_total
    [of sdk_ok "initial_state None" partial_widgets None "\<lparr>ident = ViewObj, destroy = DestroyAbsent\<rparr>"]
  from t h have 1: "destroyWidgets sdk_ok partial_widgets (initial_state None) = (Inr (), initial_state None)"
    by blast
  from t have 2: "destroyView sdk_ok (Some \<lparr>ident = ViewObj, destroy = DestroyAbsent\<rparr>) (initial_state None) =
     (Inr (), initial_state None)"
    by (simp add: has_destroy_def)
  from p 1 2 show ?thesis by blast
qed

lemma first_failure_None_iff:
  "first_failure k ts = None \<longleftrightarrow> (\<forall>t\<in>set ts. ctor_throws k t = None)"
  by (induction ts) (auto split: option.splits)

lemma setupAllWidgets_run:
  "setupAllWidgets k view layer s =
     (case first_failure k (widget_order (layer \<noteq> None)) of
        None \<Rightarrow>
          (Inr (full_widgets (layer \<noteq> None)),
           place_defaults (s\<lparr>constructed := constructed s @ widget_order (layer \<noteq> None)\<rparr>))
      | Some (t, e) \<Rightarrow>
          (Inl e, s\<lparr>constructed := constructed s @ built k (widget_order (layer \<noteq> None))\<rparr>))"
  by (cases layer)
     (simp_all add: setupAllWidgets_def createHomeWidget_v1_def createCompassWidget_v1_def
        createLocateWidget_v1_def createSearchWidget_v1_def createScaleBarWidget_v1_def
        createFullscreenWidget_v1_def createBasemapGallery_v1_def
        createCoordinateConversionWidget_v1_def createMeasurementWidget_v1_def
        createSketchWidget_v1_def sdk_new_def widget_order_def full_widgets_def
        bind_js_def return_js_def modify_js_def place_defaults_def new_handle_def
        split: option.splits)

subsection \<open>C9: the slots of the created widget set\<close>

text \<open>
  C9. Whenever bulk create returns a widget set, its nine slots home, compass, locate,
  search, scaleBar, fullscreen, basemapGallery, coordinateConversion and measurement are
  filled, and its sketch slot is filled exactly when a graphics layer was passed; and it
  does return a widget set whenever none of the constructors it calls throws. The same
  holds for \<^verbatim>\<open>setupAllWidgets\<close> of the first version of the factory.
\<close>

theorem createAllWidgets_slots:
  "(createAllWidgets k view layer s = (Inr ws, s') \<or> setupAllWidgets k view layer s = (Inr ws, s') \<longrightarrow>
      home ws \<noteq> None \<and> compass ws \<noteq> None \<and> locate ws \<noteq> None \<and> search ws \<noteq> None \<and>
      scaleBar ws \<noteq> None \<and> fullscreen ws \<noteq> None \<and> basemapGallery ws \<noteq> None \<and>
      coordinateConversion ws \<noteq> None \<and> measurement ws \<noteq> None \<and>
      (sketch ws \<noteq> None) = (layer \<noteq> None)) \<and>
   ((\<forall>t\<in>set (widget_order (layer \<noteq> None)). ctor_throws k t = None) \<longrightarrow>
      (\<exists>ws s'. createAllWidgets k view layer s = (Inr ws, s')) \<and>
      (\<exists>ws s'. setupAllWidgets k view layer s = (Inr ws, s')))"
proof -
  have slots: "home ws \<noteq> None \<and> compass ws \<noteq> None \<and> locate ws \<noteq> None \<and> search ws \<noteq> None \<and>
      scaleBar ws \<noteq> None \<and> fullscreen ws \<noteq> None \<and> basemapGallery ws \<noteq> None \<and>
      coordinateConversion ws \<noteq> None \<and> measurement ws \<noteq> None \<and>
      (sketch ws \<noteq> None) = (layer \<noteq> None)"
    if h: "createAllWidgets k view layer s = (Inr ws, s') \<or> setupAllWidgets k view layer s = (Inr ws, s')"
  proof -
    have "ws = full_widgets (layer \<noteq> None)"
      using h unfolding createAllWidgets_result setupAllWidgets_run
      by (auto split: option.splits)
    then show ?thesis
      by (simp add: full_widgets_def)
  qed
  have returns: "(\<exists>ws s'. createAllWidgets k view layer s = (Inr ws, s')) \<and>
      (\<exists>ws s'. setupAllWidgets k view layer s = (Inr ws, s'))"
    if "\<forall>t\<in>set (widget_order (layer \<noteq> None)). ctor_throws k t = None"
  proof -
    from that have n: "first_failure k (widget_order (layer \<noteq> None)) = None"
      by (simp add: first_failure_None_iff)
    show ?thesis
      unfolding createAllWidgets_result setupAllWidgets_run n by simp
  qed
  from slots returns show ?thesis by blast
qed

theorem createAllWidgets_slots_witness:
  "(\<exists>ws s'. createAllWidgets sdk_ok (new_handle ViewObj) None (initial_state None) = (Inr ws, s') \<and>
      home ws \<noteq> None \<and> measurement ws \<noteq> None \<and> sketch ws = None) \<and>
   (\<exists>ws s'. createAllWidgets sdk_ok (new_handle ViewObj) (Some (new_handle LayerObj)) (initial_state None) = (Inr ws, s') \<and>
      home ws \<noteq> None \<and> measurement ws \<noteq> None \<and> sketch ws \<noteq> None)"
proof -
  have ok: "\<And>b. \<forall>t\<in>set (widget_order b). ctor_throws sdk_ok t = None"
    by (simp add: sdk_ok_def)
  note a = createAllWidgets_slots [of sdk_ok "new_handle ViewObj" None "initial_state None"]
  note b = createAllWidgets_slots [of sdk_ok "new_handle ViewObj" "Some (new_handle LayerObj)" "initial_state None"]
  from a ok obtain ws s' where
    1: "createAllWidgets sdk_ok (new_handle ViewObj) None (initial_state None) = (Inr ws, s')"
    by blast
  from createAllWidgets_slots [of sdk_ok "new_handle ViewObj" None "initial_state None" ws s'] 1
  have 2: "home ws \<noteq> None \<and> measurement ws \<noteq> None \<and> sketch ws = None" by simp
  from b ok obtain ws2 s2 where
    3: "createAllWidgets sdk_ok (new_handle ViewObj) (Some (new_handle LayerObj)) (initial_state None) = (Inr ws2, s2)"
    by blast
  from createAllWidgets_slots [of sdk_ok "new_handle ViewObj" "Some (new_handle LayerObj)" "initial_state None" ws2 s2] 3
  have 4: "home ws2 \<noteq> None \<and> measurement ws2 \<noteq> None \<and> sketch ws2 \<noteq> None" by simp
  from 1 2 3 4 show ?thesis by blast
qed

lemma basemap_effect_fields:
  "pending (basemap_effect s) = pending s" "mounted (basemap_effect s) = mounted s"
  "error (basemap_effect s) = error s" "loading (basemap_effect s) = loading s"
  "viewRef (basemap_effect s) = viewRef s" "widgetsRef (basemap_effect s) = widgetsRef s"
  "constructed (basemap_effect s) = constructed s" "teardowns (basemap_effect s) = teardowns s"
  "toolsOpen (basemap_effect s) = toolsOpen s" "basemapOpen (basemap_effect s) = basemapOpen s"
  by (simp_all add: basemap_effect_def ui_add_def ui_remove_def Let_def split: option.splits)

lemma tools_effect_fields:
  "pending (tools_effect s) = pending s" "mounted (tools_effect s) = mounted s"
  "error (tools_effect s) = error s" "loading (tools_effect s) = loading s"
  "viewRef (tools_effect s) = viewRef s" "widgetsRef (tools_effect s) = widgetsRef s"
  "constructed (tools_effect s) = constructed s" "teardowns (tools_effect s) = teardowns s"
  "toolsOpen (tools_effect s) = toolsOpen s" "basemapOpen (tools_effect s) = basemapOpen s"
  by (simp_all add: tools_effect_def ui_add_def ui_remove_def Let_def split: option.splits)

lemma init_ok_fields:
  "mounted (init_ok s) = mounted s" "error (init_ok s) = error s" "loading (init_ok s) = loading s"
  "pending (init_ok s) = pending s" "teardowns (init_ok s) = teardowns s"
  "toolsOpen (init_ok s) = toolsOpen s" "basemapOpen (init_ok s) = basemapOpen s"
  "viewRef (init_ok s) = Some (new_handle ViewObj)" "widgetsRef (init_ok s) = full_widgets True"
  "constructed (init_ok s) = constructed s @ init_order"
  by (simp_all add: init_ok_def place_defaults_def ui_add_def)

lemma mount_fields:
  "mounted (mount k s)"
  "pending (mount k s) = AwaitInit (fst (initializeMap k (s\<lparr>mounted := True, loading := True, error := None\<rparr>)))"
  "error (mount k s) = None"
  by (simp_all add: mount_def basemap_effect_fields tools_effect_fields setup_start_def
      initializeMap_run init_ok_fields split: prod.splits option.splits)

lemma to_string_factory_error:
  "to_string (factory_error t e) = ''Error: '' @ message (factory_error t e)"
  using failure_label_nonempty [of t]
  by (cases t) (simp_all add: factory_error_def Error_def)

lemma resume_after_failed_init:
  assumes "mounted s" "pending s = AwaitInit (Inl (Error msg))"
  shows "error (resume k ps s) = Some msg"
  using assms by (simp add: resume_def setup_catch_Error)

subsection \<open>C8: a failed construction is described and surfaces\<close>

text \<open>
  C8. When the constructor of the SDK throws, each of the thirteen creators throws an
  error whose message names what it was creating, followed by the string of what was
  thrown. Bulk create throws an error that names the widgets and, inside it, the widget
  whose constructor threw first. \<^verbatim>\<open>initializeMap\<close> wraps either error once more, and
  after the mount effect and the continuation of \<^verbatim>\<open>setup\<close> the component holds that
  message as its error: it is in its failed state.
\<close>

theorem construction_failure_described:
  "(ctor_throws k MapObj = Some e \<longrightarrow>
      fst (createMap k basemap s) = Inl (Error (''Failed to create map: '' @ to_string e))) \<and>
   (ctor_throws k ViewObj = Some e \<longrightarrow>
      fst (createMapView k container map_obj s) = Inl (Error (''Failed to create map view: '' @ to_string e))) \<and>
   (ctor_throws k LayerObj = Some e \<longrightarrow>
      fst (createGraphicsLayer k layer_id s) =
        Inl (Error (''Failed to create graphics layer: '' @ to_string e))) \<and>
   (ctor_throws k (WidgetObj Home) = Some e \<longrightarrow>
      fst (createHomeWidget k view s) = Inl (Error (''Failed to create home widget: '' @ to_string e))) \<and>
   (ctor_throws k (WidgetObj Compass) = Some e \<longrightarrow>
      fst (createCompassWidget k view s) =
        Inl (Error (''Failed to create compass widget: '' @ to_string e))) \<and>
   (ctor_throws k (WidgetObj Locate) = Some e \<longrightarrow>
      fst (createLocateWidget k view s) = Inl (Error (''Failed to create locate widget: '' @ to_string e))) \<and>
   (ctor_throws k (WidgetObj Search) = Some e \<longrightarrow>
      fst (createSearchWidget k view s) = Inl (Error (''Failed to create search widget: '' @ to_string e))) \<and>
   (ctor_throws k (WidgetObj ScaleBar) = Some e \<longrightarrow>
      fst (createScaleBarWidget k view s) =
        Inl (Error (''Failed to create scale bar widget: '' @ to_string e))) \<and>
   (ctor_throws k (WidgetObj Fullscreen) = Some e \<longrightarrow>
      fst (createFullscreenWidget k view s) =
        Inl (Error (''Failed to create fullscreen widget: '' @ to_string e))) \<and>
   (ctor_throws k (WidgetObj BasemapGallery) = Some e \<longrightarrow>
      fst (createBasemapGallery k view s) =
        Inl (Error (''Failed to create basemap gallery: '' @ to_string e))) \<and>
   (ctor_throws k (WidgetObj CoordinateConversion) = Some e \<longrightarrow>
      fst (createCoordinateConversionWidget k view s) =
        Inl (Error (''Failed to create coordinate conversion widget: '' @ to_string e))) \<and>
   (ctor_throws k (WidgetObj Measurement) = Some e \<longrightarrow>
      fst (createMeasurementWidget k view s) =
        Inl (Error (''Failed to create measurement widget: '' @ to_string e))) \<and>
   (ctor_throws k (WidgetObj Sketch) = Some e \<longrightarrow>
      fst (createSketchWidget k view layer s) =
        Inl (Error (''Failed to create sketch widget: '' @ to_string e))) \<and>
   (first_failure k (widget_order (graphicsLayer \<noteq> None)) = Some (t, e) \<longrightarrow>
      fst (createAllWidgets k view graphicsLayer s) =
        Inl (Error (''Failed to create widgets: Error: '' @ failure_label t @ to_string e))) \<and>
   (first_failure k init_order = Some (t, e) \<and> mapDivRef s \<noteq> None \<longrightarrow>
      fst (initializeMap k s) =
        Inl (Error (''Map initialization failed: Error: '' @ message (factory_error t e))) \<and>
      error (resume k ps (mount k s)) =
        Some (''Map initialization failed: Error: '' @ message (factory_error t e)) \<and>
      lifecycle_of (resume k ps (mount k s)) = Failed)"
proof -
  have singles: "(ctor_throws k MapObj = Some e \<longrightarrow>
      fst (createMap k basemap s) = Inl (Error (''Failed to create map: '' @ to_string e))) \<and>
   (ctor_throws k ViewObj = Some e \<longrightarrow>
      fst (createMapView k container map_obj s) = Inl (Error (''Failed to create map view: '' @ to_string e))) \<and>
   (ctor_throws k LayerObj = Some e \<longrightarrow>
      fst (createGraphicsLayer k layer_id s) =
        Inl (Error (''Failed to create graphics layer: '' @ to_string e))) \<and>
   (ctor_throws k (WidgetObj Home) = Some e \<longrightarrow>
      fst (createHomeWidget k view s) = Inl (Error (''Failed to create home widget: '' @ to_string e))) \<and>
   (ctor_throws k (WidgetObj Compass) = Some e \<longrightarrow>
      fst (createCompassWidget k view s) =
        Inl (Error (''Failed to create compass widget: '' @ to_string e))) \<and>
   (ctor_throws k (WidgetObj Locate) = Some e \<longrightarrow>
      fst (createLocateWidget k view s) = Inl (Error (''Failed to create locate widget: '' @ to_string e))) \<and>
   (ctor_throws k (WidgetObj Search) = Some e \<longrightarrow>
      fst (createSearchWidget k view s) = Inl (Error (''Failed to create search widget: '' @ to_string e))) \<and>
   (ctor_throws k (WidgetObj ScaleBar) = Some e \<longrightarrow>
      fst (createScaleBarWidget k view s) =
        Inl (Error (''Failed to create scale bar widget: '' @ to_string e))) \<and>
   (ctor_throws k (WidgetObj Fullscreen) = Some e \<longrightarrow>
      fst (createFullscreenWidget k view s) =
        Inl (Error (''Failed to create fullscreen widget: '' @ to_string e))) \<and>
   (ctor_throws k (WidgetObj BasemapGallery) = Some e \<longrightarrow>
      fst (createBasemapGallery k view s) =
        Inl (Error (''Failed to create basemap gallery: '' @ to_string e))) \<and>
   (ctor_throws k (WidgetObj CoordinateConversion) = Some e \<longrightarrow>
      fst (createCoordinateConversionWidget k view s) =
        Inl (Error (''Failed to create coordinate conversion widget: '' @ to_string e))) \<and>
   (ctor_throws k (WidgetObj Measurement) = Some e \<longrightarrow>
      fst (createMeasurementWidget k view s) =
        Inl (Error (''Failed to create measurement widget: '' @ to_string e))) \<and>
   (ctor_throws k (WidgetObj Sketch) = Some e \<longrightarrow>
      fst (createSketchWidget k view layer s) =
        Inl (Error (''Failed to create sketch widget: '' @ to_string e)))"
    by (simp add: creators guarded_new_def)
  have bulk: "fst (createAllWidgets k view graphicsLayer s) =
        Inl (Error (''Failed to create widgets: Error: '' @ failure_label t @ to_string e))"
    if f: "first_failure k (widget_order (graphicsLayer \<noteq> None)) = Some (t, e)"
  proof -
    from f obtain w where "t = WidgetObj w" using first_failure_widget by blast
    then show ?thesis
      unfolding createAllWidgets_result f by (simp add: factory_error_def)
  qed
  have init: "fst (initializeMap k s) =
        Inl (Error (''Map initialization failed: Error: '' @ message (factory_error t e))) \<and>
      error (resume k ps (mount k s)) =
        Some (''Map initialization failed: Error: '' @ message (factory_error t e)) \<and>
      lifecycle_of (resume k ps (mount k s)) = Failed"
    if f: "first_failure k init_order = Some (t, e) \<and> mapDivRef s \<noteq> None"
  proof -
    let ?msg = "''Map initialization failed: Error: '' @ message (factory_error t e)"
    from f obtain c where c: "mapDivRef s = Some c" by auto
    have i: "\<And>s'. mapDivRef s' = Some c \<Longrightarrow> fst (initializeMap k s') = Inl (Error ?msg)"
      using f by (simp add: initializeMap_run to_string_factory_error)
    have "pending (mount k s) = AwaitInit (Inl (Error ?msg))"
      using i [of "s\<lparr>mounted := True, loading := True, error := None\<rparr>"] c
      by (simp add: mount_fields)
    then have "error (resume k ps (mount k s)) = Some ?msg"
      by (rule resume_after_failed_init [OF mount_fields(1)])
    moreover from this have "lifecycle_of (resume k ps (mount k s)) = Failed"
      by (rule lifecycle_Failed) simp
    ultimately show ?thesis using i [OF c] by simp
  qed
  from bulk have b: "first_failure k (widget_order (graphicsLayer \<noteq> None)) = Some (t, e) \<longrightarrow>
      fst (createAllWidgets k view graphicsLayer s) =
        Inl (Error (''Failed to create widgets: Error: '' @ failure_label t @ to_string e))"
    by (rule impI)
  from init have i: "first_failure k init_order = Some (t, e) \<and> mapDivRef s \<noteq> None \<longrightarrow>
      fst (initializeMap k s) =
        Inl (Error (''Map initialization failed: Error: '' @ message (factory_error t e))) \<and>
      error (resume k ps (mount k s)) =
        Some (''Map initialization failed: Error: '' @ message (factory_error t e)) \<and>
      lifecycle_of (resume k ps (mount k s)) = Failed"
    by (rule impI)
  from singles b i show ?thesis
    by (elim conjE) (intro conjI; assumption)
qed

theorem construction_failure_described_witness:
  "ctor_throws (sdk_ctor_fails (WidgetObj Compass)) (WidgetObj Compass) =
     Some (ErrorObj ''TypeError'' ''no context'') \<and>
   first_failure (sdk_ctor_fails (WidgetObj Compass)) init_order =
     Some (WidgetObj Compass, ErrorObj ''TypeError'' ''no context'') \<and>
   mapDivRef (initial_state (Some ''mapDiv'')) \<noteq> None \<and>
   fst (createCompassWidget (sdk_ctor_fails (WidgetObj Compass)) (new_handle ViewObj)
          (initial_state (Some ''mapDiv''))) =
     Inl (Error ''Failed to create compass widget: TypeError: no context'') \<and>
   error (resume (sdk_ctor_fails (WidgetObj Compass)) [point_A, point_B]
            (mount (sdk_ctor_fails (WidgetObj Compass)) (initial_state (Some ''mapDiv'')))) =
     Some (''Map initialization failed: Error: Failed to create widgets: Error: '' @
           ''Failed to create compass widget: TypeError: no context'') \<and>
   lifecycle_of (resume (sdk_ctor_fails (WidgetObj Compass)) [point_A, point_B]
            (mount (sdk_ctor_fails (WidgetObj Compass)) (initial_state (Some ''mapDiv'')))) = Failed"
proof -
  let ?k = "sdk_ctor_fails (WidgetObj Compass)"
  let ?e = "ErrorObj ''TypeError'' ''no context''"
  let ?s = "initial_state (Some ''mapDiv'')"
  have c: "ctor_throws ?k (WidgetObj Compass) = Some ?e"
    by (simp add: sdk_ctor_fails_def)
  have f: "first_failure ?k init_order = Some (WidgetObj Compass, ?e)"
    by (simp add: sdk_ctor_fails_def init_order_def widget_order_def)
  have d: "mapDivRef ?s \<noteq> None"
    by (simp add: initial_state_def)
  note t = construction_failure_described
    [of ?k ?e _ ?s _ _ _ "new_handle ViewObj" _ _ "WidgetObj Compass" "[point_A, point_B]"]
  have 1: "fst (createCompassWidget ?k (new_handle ViewObj) ?s) =
     Inl (Error (''Failed to create compass widget: '' @ to_string ?e))"
    by (rule t [THEN conjunct2, THEN conjunct2, THEN conjunct2, THEN conjunct2, THEN conjunct1, THEN mp, OF c])
  have 2: "error (resume ?k [point_A, point_B] (mount ?k ?s)) =
        Some (''Map initialization failed: Error: '' @ message (factory_error (WidgetObj Compass) ?e)) \<and>
      lifecycle_of (resume ?k [point_A, point_B] (mount ?k ?s)) = Failed"
    by (rule t [THEN conjunct2, THEN conjunct2, THEN conjunct2, THEN conjunct2, THEN conjunct2, THEN conjunct2, THEN conjunct2, THEN conjunct2, THEN conjunct2, THEN conjunct2, THEN conjunct2, THEN conjunct2, THEN conjunct2, THEN conjunct2, THEN mp, OF conjI [OF f d], THEN conjunct2])
  from c f d 1 2 show ?thesis
    by (simp add: factory_error_def Error_def)
qed

section \<open>The toggles: properties\<close>

lemma ui_widgets_add [simp]: "ui_widgets (ui_add h pos s) = insert (ident h) (ui_widgets s)"
  by (auto simp: ui_widgets_def ui_add_def)

lemma ui_widgets_remove [simp]: "ui_widgets (ui_remove h s) = ui_widgets s - {ident h}"
  by (auto simp: ui_widgets_def ui_remove_def)

lemma ui_widgets_update [simp]:
  "ui_widgets (s\<lparr>toolsOpen := a\<rparr>) = ui_widgets s"
  "ui_widgets (s\<lparr>basemapOpen := a\<rparr>) = ui_widgets s"
  "ui_widgets (s\<lparr>toolsOpenRef := a\<rparr>) = ui_widgets s"
  "ui_widgets (s\<lparr>basemapOpenRef := a\<rparr>) = ui_widgets s"
  by (simp_all add: ui_widgets_def)

lemma ui_op_fields [simp]:
  "viewRef (ui_add h pos s) = viewRef s" "widgetsRef (ui_add h pos s) = widgetsRef s"
  "toolsOpen (ui_add h pos s) = toolsOpen s" "basemapOpen (ui_add h pos s) = basemapOpen s"
  "viewRef (ui_remove h s) = viewRef s" "widgetsRef (ui_remove h s) = widgetsRef s"
  "toolsOpen (ui_remove h s) = toolsOpen s" "basemapOpen (ui_remove h s) = basemapOpen s"
  by (simp_all add: ui_add_def ui_remove_def)



lemma tools_effect_absent:
  assumes "viewRef s = None \<or> measurement (widgetsRef s) = None \<or> sketch (widgetsRef s) = None"
  shows "tools_effect s = s" "tools_effect_v1 s = s"
  using assms by (auto simp: tools_effect_def tools_effect_v1_def split: option.splits)

lemma basemap_effect_absent:
  assumes "viewRef s = None \<or> basemapGallery (widgetsRef s) = None"
  shows "basemap_effect s = s" "basemap_effect_v1 s = s"
  using assms by (auto simp: basemap_effect_def basemap_effect_v1_def split: option.splits)

subsection \<open>C7: a toggle before construction\<close>

text \<open>
  C7. While the view, the measurement widget or the sketch widget does not exist, the
  tools effect returns the state it was given, so a click on the tools button changes
  the boolean \<^verbatim>\<open>toolsOpen\<close> and nothing else: the UI surface and the widget set are as
  before. The same holds for the basemap button while the view or the gallery widget does
  not exist, and for the effects of the first version of the component.
\<close>

theorem toggle_before_construction_is_noop:
  "(viewRef s = None \<or> measurement (widgetsRef s) = None \<or> sketch (widgetsRef s) = None \<longrightarrow>
      tools_effect s = s \<and>
      handleToolsToggle s = s\<lparr>toolsOpen := \<not> toolsOpen s\<rparr> \<and>
      ui (handleToolsToggle s) = ui s \<and> widgetsRef (handleToolsToggle s) = widgetsRef s \<and>
      tools_effect_v1 s = s \<and>
      handleToolsToggle_v1 s = s\<lparr>toolsOpen := \<not> toolsOpen s\<rparr>) \<and>
   (viewRef s = None \<or> basemapGallery (widgetsRef s) = None \<longrightarrow>
      basemap_effect s = s \<and>
      handleBasemapToggle s = s\<lparr>basemapOpen := \<not> basemapOpen s\<rparr> \<and>
      ui (handleBasemapToggle s) = ui s \<and> widgetsRef (handleBasemapToggle s) = widgetsRef s \<and>
      basemap_effect_v1 s = s \<and>
      handleBasemapToggle_v1 s = s\<lparr>basemapOpen := \<not> basemapOpen s\<rparr>)"
proof -
  have tools: "tools_effect s = s \<and>
      handleToolsToggle s = s\<lparr>toolsOpen := \<not> toolsOpen s\<rparr> \<and>
      ui (handleToolsToggle s) = ui s \<and> widgetsRef (handleToolsToggle s) = widgetsRef s \<and>
      tools_effect_v1 s = s \<and>
      handleToolsToggle_v1 s = s\<lparr>toolsOpen := \<not> toolsOpen s\<rparr>"
    if h: "viewRef s = None \<or> measurement (widgetsRef s) = None \<or> sketch (widgetsRef s) = None"
  proof -
    let ?s = "s\<lparr>toolsOpen := \<not> toolsOpen s\<rparr>"
    from h have h': "viewRef ?s = None \<or> measurement (widgetsRef ?s) = None \<or> sketch (widgetsRef ?s) = None"
      by simp
    show ?thesis
      by (simp add: handleToolsToggle_def handleToolsToggle_v1_def
          tools_effect_absent [OF h] tools_effect_absent [OF h'])
  qed
  have basemap: "basemap_effect s = s \<and>
      handleBasemapToggle s = s\<lparr>basemapOpen := \<not> basemapOpen s\<rparr> \<and>
      ui (handleBasemapToggle s) = ui s \<and> widgetsRef (handleBasemapToggle s) = widgetsRef s \<and>
      basemap_effect_v1 s = s \<and>
      handleBasemapToggle_v1 s = s\<lparr>basemapOpen := \<not> basemapOpen s\<rparr>"
    if h: "viewRef s = None \<or> basemapGallery (widgetsRef s) = None"
  proof -
    let ?s = "s\<lparr>basemapOpen := \<not> basemapOpen s\<rparr>"
    from h have h': "viewRef ?s = None \<or> basemapGallery (widgetsRef ?s) = None"
      by simp
    show ?thesis
      by (simp add: handleBasemapToggle_def handleBasemapToggle_v1_def
          basemap_effect_absent [OF h] basemap_effect_absent [OF h'])
  qed
  from tools basemap show ?thesis by blast
qed

theorem toggle_before_construction_is_noop_witness:
  "viewRef (initial_state (Some ''mapDiv'')) = None \<and>
   handleToolsToggle (initial_state (Some ''mapDiv'')) =
     (initial_state (Some ''mapDiv''))\<lparr>toolsOpen := True\<rparr> \<and>
   handleBasemapToggle (initial_state (Some ''mapDiv'')) =
     (initial_state (Some ''mapDiv''))\<lparr>basemapOpen := True\<rparr> \<and>
   ui (handleToolsToggle (initial_state (Some ''mapDiv''))) = [] \<and>
   ui (handleBasemapToggle (initial_state (Some ''mapDiv''))) = []"
proof -
  let ?s = "initial_state (Some ''mapDiv'')"
  have v: "viewRef ?s = None" by (simp add: initial_state_def)
  then have h1: "viewRef ?s = None \<or> measurement (widgetsRef ?s) = None \<or> sketch (widgetsRef ?s) = None"
    and h2: "viewRef ?s = None \<or> basemapGallery (widgetsRef ?s) = None"
    by simp_all
  have o: "toolsOpen ?s = False" "basemapOpen ?s = False" "ui ?s = []"
    by (simp_all add: initial_state_def)
  note t = toggle_before_construction_is_noop [of ?s]
  from t [THEN conjunct1, THEN mp, OF h1] t [THEN conjunct2, THEN mp, OF h2] v o
  show ?thesis by simp
qed





lemma setup_catch_fields:
  "viewRef (setup_catch e s) = viewRef s" "widgetsRef (setup_catch e s) = widgetsRef s"
  "ui (setup_catch e s) = ui s" "toolsOpen (setup_catch e s) = toolsOpen s"
  "basemapOpen (setup_catch e s) = basemapOpen s" "teardowns (setup_catch e s) = teardowns s"
  "constructed (setup_catch e s) = constructed s" "mounted (setup_catch e s) = mounted s"
  by (simp_all add: setup_catch_def)

lemma resume_fields:
  "viewRef (resume k ps s) = viewRef s" "widgetsRef (resume k ps s) = widgetsRef s"
  "ui (resume k ps s) = ui s" "toolsOpen (resume k ps s) = toolsOpen s"
  "basemapOpen (resume k ps s) = basemapOpen s" "teardowns (resume k ps s) = teardowns s"
  "constructed (resume k ps s) = constructed s" "mounted (resume k ps s) = mounted s"
  by (simp_all add: resume_def setup_catch_fields addPointsToLayer_result
      split: setup_pc.splits sum.splits prod.splits option.splits)










subsection \<open>C5: what the toggles add and remove\<close>






lemma first_run_reachable: "first_run k ps s \<Longrightarrow> reachable k ps s"
  by (induction rule: first_run.induct) (auto intro: reachable.intros)






section \<open>Unmounting: properties\<close>

lemma lifetime_inv_mount: "lifetime_inv k (mount k (initial_state c))"
proof -
  let ?s0 = "(initial_state c)\<lparr>mounted := True, loading := True, error := None\<rparr>"
  have m: "mount k (initial_state c) =
      tools_effect (basemap_effect ((snd (initializeMap k ?s0))\<lparr>pending := AwaitInit (fst (initializeMap k ?s0))\<rparr>))"
    by (simp add: mount_def setup_start_def split: prod.splits)
  have "lifetime_inv k (snd (initializeMap k ?s0))"
    by (auto simp: lifetime_inv_def initializeMap_run init_ok_fields initial_state_def
        split: option.splits prod.splits)
  then show ?thesis
    unfolding m lifetime_inv_def
    by (simp add: tools_effect_fields basemap_effect_fields)
qed

lemma lifetime_inv_step:
  assumes "lifetime_inv k s"
  shows "lifetime_inv k (resume k ps s)" "lifetime_inv k (handleToolsToggle s)"
    "lifetime_inv k (handleBasemapToggle s)"
  using assms
  unfolding lifetime_inv_def handleToolsToggle_def handleBasemapToggle_def
  by (simp_all add: resume_fields tools_effect_fields basemap_effect_fields)

lemma first_run_lifetime: "first_run k ps s \<Longrightarrow> lifetime_inv k s"
  by (induction rule: first_run.induct) (simp_all add: lifetime_inv_mount lifetime_inv_step)

lemma built_prefix_not_owned:
  assumes "first_failure k init_order = Some (t, e)" "\<not> owned t \<or> t = ViewObj"
  shows "\<forall>x\<in>set (built k init_order). \<not> owned x"
  using assms
  by (auto simp: init_order_def widget_order_def split: option.splits)

text \<open>
  Unmounting during the first run of the mount effect, when the initialization did not
  stop inside bulk create: every view and widget constructed has received exactly one
  teardown call, nothing else has received one, and a second run of the cleanup calls no
  teardown.
\<close>

lemma cleanup_exact:
  assumes r: "first_run k ps s"
    and nw: "\<forall>w e. first_failure k init_order \<noteq> Some (WidgetObj w, e)"
  shows "fst (cleanup k s) = Inr ()"
    and "\<forall>t. owned t \<longrightarrow>
           count_list (teardowns (snd (cleanup k s))) t = (if t \<in> set (constructed s) then 1 else 0)"
    and "\<forall>t. \<not> owned t \<longrightarrow> count_list (teardowns (snd (cleanup k s))) t = 0"
proof -
  show "fst (cleanup k s) = Inr ()" by (simp add: cleanup_run)
  from first_run_lifetime [OF r] consider
      (none) "teardowns s = []" "viewRef s = None" "widgetsRef s = empty_widgets" "constructed s = []"
    | (failed) t e where "teardowns s = []" "viewRef s = None" "widgetsRef s = empty_widgets"
        "first_failure k init_order = Some (t, e)" "constructed s = built k init_order"
    | (ok) "teardowns s = []" "viewRef s = Some (new_handle ViewObj)"
        "widgetsRef s = full_widgets True" "constructed s = init_order"
    by (auto simp: lifetime_inv_def)
  then have "(\<forall>t. owned t \<longrightarrow>
           count_list (teardowns (snd (cleanup k s))) t = (if t \<in> set (constructed s) then 1 else 0)) \<and>
      (\<forall>t. \<not> owned t \<longrightarrow> count_list (teardowns (snd (cleanup k s))) t = 0)"
  proof cases
    case none
    then show ?thesis by (simp add: cleanup_run destroyable_full)
  next
    case failed
    from failed(4) nw have "\<not> owned t \<or> t = ViewObj" by (cases t) auto
    from built_prefix_not_owned [OF failed(4) this] failed show ?thesis
      by (auto simp: cleanup_run destroyable_full)
  next
    case ok
    have "teardowns (snd (cleanup k s)) = widget_order True @ [ViewObj]"
      by (simp add: cleanup_run ok destroyable_full)
    moreover have "\<And>t. owned t \<Longrightarrow> count_list (widget_order True @ [ViewObj]) t = 1"
    proof -
      fix t assume "owned t"
      then show "count_list (widget_order True @ [ViewObj]) t = 1"
      proof (cases t)
        case (WidgetObj w)
        then show ?thesis by (cases w) (simp_all add: widget_order_def)
      qed (simp_all add: widget_order_def)
    qed
    moreover have "\<And>t. owned t \<Longrightarrow> t \<in> set init_order"
    proof -
      fix t assume "owned t"
      then show "t \<in> set init_order"
      proof (cases t)
        case (WidgetObj w)
        then show ?thesis by (cases w) (simp_all add: init_order_def widget_order_def)
      qed (simp_all add: init_order_def)
    qed
    moreover have "\<And>t. \<not> owned t \<Longrightarrow> count_list (widget_order True @ [ViewObj]) t = 0"
    proof -
      fix t assume "\<not> owned t"
      then show "count_list (widget_order True @ [ViewObj]) t = 0"
        by (cases t) (auto simp: widget_order_def)
    qed
    ultimately show ?thesis using ok by simp
  qed
  then show "\<forall>t. owned t \<longrightarrow>
           count_list (teardowns (snd (cleanup k s))) t = (if t \<in> set (constructed s) then 1 else 0)"
    and "\<forall>t. \<not> owned t \<longrightarrow> count_list (teardowns (snd (cleanup k s))) t = 0"
    by simp_all
qed

lemma cleanup_twice:
  "teardowns (snd (cleanup k (snd (cleanup k s)))) = teardowns (snd (cleanup k s))"
  by (simp add: cleanup_run destroyable_full)

subsection \<open>C4: unmounting after a widget constructor threw\<close>

text \<open>
  C4 says that unmounting in any lifecycle state gives every view and widget created
  during the mount exactly one teardown call. The code does not do so in one case. When
  the constructor of the compass widget throws, the view and the home widget have been
  constructed, \<^verbatim>\<open>initializeMap\<close> has not yet stored anything in the two references,
  and the component ends in its failed state. The cleanup then finds an empty widget set
  and no view: it returns without a single teardown call, before as well as after the
  failure has been shown.
\<close>

theorem cleanup_skips_view_after_widget_failure:
  "lifecycle_of (mount (sdk_ctor_fails (WidgetObj Compass)) (initial_state (Some ''mapDiv''))) =
     Initializing \<and>
   lifecycle_of (resume (sdk_ctor_fails (WidgetObj Compass)) [point_A, point_B]
     (mount (sdk_ctor_fails (WidgetObj Compass)) (initial_state (Some ''mapDiv'')))) = Failed \<and>
   constructed (resume (sdk_ctor_fails (WidgetObj Compass)) [point_A, point_B]
     (mount (sdk_ctor_fails (WidgetObj Compass)) (initial_state (Some ''mapDiv'')))) =
     [MapObj, LayerObj, ViewObj, WidgetObj Home] \<and>
   fst (cleanup (sdk_ctor_fails (WidgetObj Compass))
     (resume (sdk_ctor_fails (WidgetObj Compass)) [point_A, point_B]
       (mount (sdk_ctor_fails (WidgetObj Compass)) (initial_state (Some ''mapDiv''))))) = Inr () \<and>
   teardowns (snd (cleanup (sdk_ctor_fails (WidgetObj Compass))
     (resume (sdk_ctor_fails (WidgetObj Compass)) [point_A, point_B]
       (mount (sdk_ctor_fails (WidgetObj Compass)) (initial_state (Some ''mapDiv'')))))) = [] \<and>
   teardowns (snd (cleanup (sdk_ctor_fails (WidgetObj Compass))
     (mount (sdk_ctor_fails (WidgetObj Compass)) (initial_state (Some ''mapDiv''))))) = []"
proof -
  let ?k = "sdk_ctor_fails (WidgetObj Compass)"
  let ?e = "ErrorObj ''TypeError'' ''no context''"
  let ?s0 = "initial_state (Some ''mapDiv'')"
  let ?msg = "''Map initialization failed: Error: '' @ message (factory_error (WidgetObj Compass) ?e)"
  have f: "first_failure ?k init_order = Some (WidgetObj Compass, ?e)"
    by (simp add: sdk_ctor_fails_def init_order_def widget_order_def)
  have b: "built ?k init_order = [MapObj, LayerObj, ViewObj, WidgetObj Home]"
    by (simp add: sdk_ctor_fails_def init_order_def widget_order_def)
  have i: "initializeMap ?k (?s0\<lparr>mounted := True, loading := True, error := None\<rparr>) =
      (Inl (Error ?msg),
       ?s0\<lparr>mounted := True, loading := True, error := None,
            constructed := [MapObj, LayerObj, ViewObj, WidgetObj Home]\<rparr>)"
    by (simp add: initializeMap_run f b to_string_factory_error initial_state_def)
  have m: "mount ?k ?s0 =
      ?s0\<lparr>mounted := True, loading := True, error := None,
           constructed := [MapObj, LayerObj, ViewObj, WidgetObj Home],
           pending := AwaitInit (Inl (Error ?msg))\<rparr>"
    unfolding mount_def setup_start_def
    by (simp add: i) (simp add: basemap_effect_def tools_effect_def initial_state_def)
  have r: "resume ?k [point_A, point_B] (mount ?k ?s0) =
      ?s0\<lparr>mounted := True, loading := False, error := Some ?msg,
           constructed := [MapObj, LayerObj, ViewObj, WidgetObj Home],
           pending := Finished\<rparr>"
    unfolding m by (simp add: resume_def setup_catch_def Error_def initial_state_def)
  show ?thesis
    unfolding r unfolding m
    by (simp add: cleanup_run destroyable_full lifecycle_of_def initial_state_def)
qed

text \<open>
  The cleanup of the first version of the component calls the teardown of the view and
  of no widget.
\<close>

lemma cleanup_v1_run:
  "teardowns (snd (cleanup_v1 k mapView s)) = teardowns s @ [ident mapView]"
  by (simp add: cleanup_v1_def destroyWidgets_v1_def Object_values_def empty_widgets_def
      bind_js_def return_js_def invoke_destroy_def split: option.splits)

end
